theory Spec2Isabelle
  imports Complex_Main "HOL-Library.Sublist" "HOL-Library.Log_Nat"
begin

section \<open>Strings\<close>

text \<open>
  Source strings are modelled as \<open>string\<close> (lists of 8-bit characters); every string the
  adapters build or take apart is ASCII. \<open>s.replace(pat, rep)\<close> with a string pattern
  replaces the first occurrence of \<open>pat\<close> only and leaves \<open>s\<close> unchanged when there is none.
\<close>

fun js_replace :: "string \<Rightarrow> string \<Rightarrow> string \<Rightarrow> string" where
  "js_replace pat rep [] = (if pat = [] then rep else [])"
| "js_replace pat rep (c # cs) =
     (if prefix pat (c # cs) then rep @ drop (length pat) (c # cs)
      else c # js_replace pat rep cs)"

definition endsWith :: "string \<Rightarrow> string \<Rightarrow> bool" where
  "endsWith s x = suffix x s"

definition upper_char :: "char \<Rightarrow> char" where
  "upper_char c =
     (let n = (of_char c :: nat) in if 97 \<le> n \<and> n \<le> 122 then char_of (n - 32) else c)"

definition toUpperCase :: "string \<Rightarrow> string" where
  "toUpperCase s = map upper_char s"

definition is_lower :: "char \<Rightarrow> bool" where
  "is_lower c = (let n = (of_char c :: nat) in 97 \<le> n \<and> n \<le> 122)"

section \<open>Numbers\<close>

text \<open>
  A source \<open>number\<close> is an IEEE 754 binary64 value. The model keeps \<open>NaN\<close> and the finite
  values, as rationals; every arithmetic operation rounds its exact result to 53 significant
  bits, to nearest and ties to even (\<open>round64\<close>). The exponent range is not bounded, so
  overflow to an infinity, gradual underflow and the sign of zero are outside the model;
  a division by zero, which none of the modelled code performs, is given the value \<open>NaN\<close>.
\<close>

datatype jsnum = NaN | Num rat

definition pow2 :: "int \<Rightarrow> rat" where
  "pow2 k = (if 0 \<le> k then 2 ^ nat k else 1 / 2 ^ nat (- k))"

definition round_half_even :: "rat \<Rightarrow> int" where
  "round_half_even x =
     (let f = \<lfloor>x\<rfloor>; d = x - of_int f
      in if d < 1 / 2 then f else if 1 / 2 < d then f + 1 else if even f then f else f + 1)"

text \<open>\<open>binexp x\<close> is the binary exponent of a positive \<open>x\<close>: \<open>2 ^ binexp x \<le> x < 2 ^ (binexp x + 1)\<close>.\<close>

definition binexp :: "rat \<Rightarrow> int" where
  "binexp x =
     (if 1 \<le> x then bitlen \<lfloor>x\<rfloor> - 1
      else (let y = 1 / x; k = bitlen \<lfloor>y\<rfloor> - 1 in if y = 2 ^ nat k then - k else - k - 1))"

definition round64 :: "rat \<Rightarrow> rat" where
  "round64 x =
     (if x = 0 then 0
      else (let a = \<bar>x\<bar>; e = binexp a; m = round_half_even (a * pow2 (52 - e))
            in sgn x * of_int m * pow2 (e - 52)))"

fun js_add :: "jsnum \<Rightarrow> jsnum \<Rightarrow> jsnum" where
  "js_add (Num a) (Num b) = Num (round64 (a + b))"
| "js_add _ _ = NaN"

fun js_sub :: "jsnum \<Rightarrow> jsnum \<Rightarrow> jsnum" where
  "js_sub (Num a) (Num b) = Num (round64 (a - b))"
| "js_sub _ _ = NaN"

fun js_mul :: "jsnum \<Rightarrow> jsnum \<Rightarrow> jsnum" where
  "js_mul (Num a) (Num b) = Num (round64 (a * b))"
| "js_mul _ _ = NaN"

fun js_div :: "jsnum \<Rightarrow> jsnum \<Rightarrow> jsnum" where
  "js_div (Num a) (Num b) = (if b = 0 then NaN else Num (round64 (a / b)))"
| "js_div _ _ = NaN"

text \<open>Comparisons: every comparison with \<open>NaN\<close> is false.\<close>

fun js_lt :: "jsnum \<Rightarrow> jsnum \<Rightarrow> bool" where
  "js_lt (Num a) (Num b) = (a < b)"
| "js_lt _ _ = False"

fun js_le :: "jsnum \<Rightarrow> jsnum \<Rightarrow> bool" where
  "js_le (Num a) (Num b) = (a \<le> b)"
| "js_le _ _ = False"

definition js_gt :: "jsnum \<Rightarrow> jsnum \<Rightarrow> bool" where
  "js_gt a b = js_lt b a"

definition js_ge :: "jsnum \<Rightarrow> jsnum \<Rightarrow> bool" where
  "js_ge a b = js_le b a"

text \<open>Truthiness of a number, and \<open>a || b\<close> on numbers: \<open>0\<close> and \<open>NaN\<close> are falsy.\<close>

fun num_truthy :: "jsnum \<Rightarrow> bool" where
  "num_truthy NaN = False"
| "num_truthy (Num a) = (a \<noteq> 0)"

definition num_or :: "jsnum \<Rightarrow> jsnum \<Rightarrow> jsnum" where
  "num_or a b = (if num_truthy a then a else b)"

text \<open>
  \<open>parseFloat(x.toFixed(d))\<close>: \<open>toFixed\<close> prints the decimal with \<open>d\<close> fraction digits nearest
  to the magnitude of \<open>x\<close> (the larger one on a tie) and \<open>parseFloat\<close> reads it back as the nearest
  binary64 value; from \<open>1e21\<close> on \<open>toFixed\<close> prints the number itself.
\<close>

fun toFixed_parsed :: "nat \<Rightarrow> jsnum \<Rightarrow> jsnum" where
  "toFixed_parsed d NaN = NaN"
| "toFixed_parsed d (Num x) =
     (if 10 ^ 21 \<le> \<bar>x\<bar> then Num x
      else Num (round64 (sgn x * of_int \<lfloor>\<bar>x\<bar> * 10 ^ d + 1 / 2\<rfloor> / 10 ^ d)))"

section \<open>Exchange identities\<close>

text \<open>
  \<open>ExchangeId\<close> is the union of the eight identifiers the factory \<open>createExchange\<close>
  switches on; \<open>exchange_name\<close> is the string each one is at run time.
\<close>

datatype ExchangeId = Bybit | OKX | MEXC | Bitget | Gateio | KuCoin | CoinEx | BingX

fun exchange_name :: "ExchangeId \<Rightarrow> string" where
  "exchange_name Bybit = ''bybit''"
| "exchange_name OKX = ''okx''"
| "exchange_name MEXC = ''mexc''"
| "exchange_name Bitget = ''bitget''"
| "exchange_name Gateio = ''gateio''"
| "exchange_name KuCoin = ''kucoin''"
| "exchange_name CoinEx = ''coinex''"
| "exchange_name BingX = ''bingx''"

section \<open>Symbol translation of the eight adapters\<close>

text \<open>
  Bybit, Bitget and CoinEx share one pair of functions, written three times in the source
  (Bybit's \<open>parseSymbol\<close> also computes a \<open>base\<close> that it never uses). The strings
  substituted by \<open>replace\<close> contain no \<open>$\<close>, so they are taken literally.
\<close>

definition concat_formatSymbol :: "string \<Rightarrow> string" where
  "concat_formatSymbol pair = js_replace ''/'' '''' pair"

definition concat_parseSymbol :: "string \<Rightarrow> string" where
  "concat_parseSymbol symbol =
     (if endsWith symbol ''USDT'' then js_replace ''USDT'' '''' symbol @ ''/USDT''
      else if endsWith symbol ''USDC'' then js_replace ''USDC'' '''' symbol @ ''/USDC''
      else symbol)"

text \<open>MEXC formats like the three above and then upper-cases the symbol.\<close>

definition mexc_formatSymbol :: "string \<Rightarrow> string" where
  "mexc_formatSymbol pair = toUpperCase (js_replace ''/'' '''' pair)"

text \<open>OKX, KuCoin and BingX use a hyphen.\<close>

definition hyphen_formatSymbol :: "string \<Rightarrow> string" where
  "hyphen_formatSymbol pair = js_replace ''/'' ''-'' pair"

definition hyphen_parseSymbol :: "string \<Rightarrow> string" where
  "hyphen_parseSymbol symbol = js_replace ''-'' ''/'' symbol"

text \<open>
  Gate.io uses an underscore and then applies the entries of \<open>symbolMapping\<close>
  (\<open>reverseMapping\<close> when parsing) in order; both tables are empty in the source.
\<close>

definition apply_mapping :: "(string \<times> string) list \<Rightarrow> string \<Rightarrow> string" where
  "apply_mapping entries s = foldl (\<lambda>acc (from, to). js_replace from to acc) s entries"

definition gateio_symbolMapping :: "(string \<times> string) list" where
  "gateio_symbolMapping = []"

definition gateio_reverseMapping :: "(string \<times> string) list" where
  "gateio_reverseMapping = []"

definition gateio_formatSymbol :: "string \<Rightarrow> string" where
  "gateio_formatSymbol pair = apply_mapping gateio_symbolMapping (js_replace ''/'' ''_'' pair)"

definition gateio_parseSymbol :: "string \<Rightarrow> string" where
  "gateio_parseSymbol symbol = apply_mapping gateio_reverseMapping (js_replace ''_'' ''/'' symbol)"

fun formatSymbol :: "ExchangeId \<Rightarrow> string \<Rightarrow> string" where
  "formatSymbol Bybit = concat_formatSymbol"
| "formatSymbol Bitget = concat_formatSymbol"
| "formatSymbol CoinEx = concat_formatSymbol"
| "formatSymbol MEXC = mexc_formatSymbol"
| "formatSymbol OKX = hyphen_formatSymbol"
| "formatSymbol KuCoin = hyphen_formatSymbol"
| "formatSymbol BingX = hyphen_formatSymbol"
| "formatSymbol Gateio = gateio_formatSymbol"

fun parseSymbol :: "ExchangeId \<Rightarrow> string \<Rightarrow> string" where
  "parseSymbol Bybit = concat_parseSymbol"
| "parseSymbol Bitget = concat_parseSymbol"
| "parseSymbol CoinEx = concat_parseSymbol"
| "parseSymbol MEXC = concat_parseSymbol"
| "parseSymbol OKX = hyphen_parseSymbol"
| "parseSymbol KuCoin = hyphen_parseSymbol"
| "parseSymbol BingX = hyphen_parseSymbol"
| "parseSymbol Gateio = gateio_parseSymbol"

text \<open>The shape of pair the symbol claim speaks about.\<close>

definition quote_currencies :: "string list" where
  "quote_currencies = [''USDT'', ''USDC'']"

definition separators :: "char list" where
  "separators = ''/-_''"

definition no_separator :: "string \<Rightarrow> bool" where
  "no_separator base = list_all (\<lambda>c. c \<notin> set separators) base"

definition ends_in_quote :: "string \<Rightarrow> bool" where
  "ends_in_quote base = list_ex (\<lambda>q. endsWith base q) quote_currencies"

definition contains_quote :: "string \<Rightarrow> string \<Rightarrow> bool" where
  "contains_quote base q = sublist q base"

text \<open>Every character of \<open>base\<close> is an ASCII character other than a lower-case letter.\<close>

definition plain_upper :: "string \<Rightarrow> bool" where
  "plain_upper base = list_all (\<lambda>c. \<not> is_lower c \<and> (of_char c :: nat) < 128) base"

section \<open>Settings\<close>

text \<open>
  \<open>Settings\<close> is the record the engine keeps; \<open>Partial<Settings>\<close> has every field optional,
  an absent field being \<open>None\<close>. The object spread \<open>{ ...this.settings, ...newSettings }\<close>
  takes each field from \<open>newSettings\<close> when it is present there and from \<open>this.settings\<close>
  otherwise.
\<close>

record Settings =
  minProfitPercent :: jsnum
  enabledExchanges :: "ExchangeId list"
  enabledPairs :: "string list"
  telegramEnabled :: bool
  soundEnabled :: bool
  tradeAmount :: jsnum

record PartialSettings =
  new_minProfitPercent :: "jsnum option"
  new_enabledExchanges :: "ExchangeId list option"
  new_enabledPairs :: "string list option"
  new_telegramEnabled :: "bool option"
  new_soundEnabled :: "bool option"
  new_tradeAmount :: "jsnum option"

definition or_else :: "'a option \<Rightarrow> 'a \<Rightarrow> 'a" where
  "or_else new old = (case new of None \<Rightarrow> old | Some v \<Rightarrow> v)"

definition spread_settings :: "Settings \<Rightarrow> PartialSettings \<Rightarrow> Settings" where
  "spread_settings old new =
     \<lparr> minProfitPercent = or_else (new_minProfitPercent new) (minProfitPercent old),
       enabledExchanges = or_else (new_enabledExchanges new) (enabledExchanges old),
       enabledPairs = or_else (new_enabledPairs new) (enabledPairs old),
       telegramEnabled = or_else (new_telegramEnabled new) (telegramEnabled old),
       soundEnabled = or_else (new_soundEnabled new) (soundEnabled old),
       tradeAmount = or_else (new_tradeAmount new) (tradeAmount old) \<rparr>"

section \<open>The arbitrage engine\<close>

record Ticker =
  exchange :: ExchangeId
  pair :: string
  bid :: jsnum
  ask :: jsnum
  last :: jsnum
  volume24h :: jsnum
  change24h :: jsnum
  timestamp :: int

text \<open>An entry \<open>{ exchange, price }\<close> of the \<open>prices\<close> array.\<close>

record VenuePrice =
  venue :: ExchangeId
  price :: jsnum

record AnalysisResult =
  a_pair :: string
  prices :: "VenuePrice list"
  bestBuy :: VenuePrice
  bestSell :: VenuePrice
  spread :: jsnum
  a_timestamp :: int

record ArbitrageOpportunity =
  opp_id :: string
  opp_pair :: string
  buyExchange :: ExchangeId
  sellExchange :: ExchangeId
  buyPrice :: jsnum
  sellPrice :: jsnum
  spreadPercent :: jsnum
  profitPercent :: jsnum
  estimatedProfit :: jsnum
  volume :: jsnum
  buyFee :: jsnum
  sellFee :: jsnum
  opp_timestamp :: int

datatype engine_event = Analysis AnalysisResult | Opportunity ArbitrageOpportunity

record Engine =
  tickers :: "string \<rightharpoonup> Ticker"
  settings :: Settings
  lastOpportunities :: "string \<rightharpoonup> int"
  analysisCount :: nat

definition COOLDOWN_MS :: int where
  "COOLDOWN_MS = 30000"

definition updateSettings :: "PartialSettings \<Rightarrow> Engine \<Rightarrow> Engine" where
  "updateSettings newSettings e = e\<lparr>settings := spread_settings (settings e) newSettings\<rparr>"

definition getSettings :: "Engine \<Rightarrow> Settings" where
  "getSettings e = settings e"

definition ticker_key :: "ExchangeId \<Rightarrow> string \<Rightarrow> string" where
  "ticker_key ex p = exchange_name ex @ ''-'' @ p"

definition updateTicker :: "Ticker \<Rightarrow> Engine \<Rightarrow> Engine" where
  "updateTicker t e = e\<lparr>tickers := (tickers e)(ticker_key (exchange t) (pair t) \<mapsto> t)\<rparr>"

text \<open>
  What one call of \<open>analyzePair\<close> reads from outside the engine: the four readings of
  \<open>Date.now()\<close>, in the order of the source, and the value of \<open>randomUUID()\<close>.
\<close>

record scan_env =
  now_analysis :: int
  now_check :: int
  now_record :: int
  now_opportunity :: int
  uuid :: string

text \<open>The first loop of \<open>analyzePair\<close>: one entry per enabled exchange with a usable ticker.\<close>

definition price_entry :: "Engine \<Rightarrow> string \<Rightarrow> ExchangeId \<Rightarrow> VenuePrice list" where
  "price_entry e p ex =
     (case tickers e (ticker_key ex p) of
        None \<Rightarrow> []
      | Some t \<Rightarrow>
          if js_gt (ask t) (Num 0) \<and> js_gt (bid t) (Num 0)
          then [\<lparr> venue = ex, price = ask t \<rparr>] else [])"

definition collectPrices :: "Engine \<Rightarrow> string \<Rightarrow> VenuePrice list" where
  "collectPrices e p = concat (map (price_entry e p) (enabledExchanges (settings e)))"

text \<open>
  \<open>prices.sort((a, b) => a.price - b.price)\<close>. The sort is stable; an entry moves behind
  another one only if the comparator is positive on them, a \<open>NaN\<close> result counting as zero.
\<close>

fun js_insert :: "('a \<Rightarrow> 'a \<Rightarrow> jsnum) \<Rightarrow> 'a \<Rightarrow> 'a list \<Rightarrow> 'a list" where
  "js_insert cmp x [] = [x]"
| "js_insert cmp x (y # ys) =
     (if js_gt (cmp x y) (Num 0) then y # js_insert cmp x ys else x # y # ys)"

fun js_sort :: "('a \<Rightarrow> 'a \<Rightarrow> jsnum) \<Rightarrow> 'a list \<Rightarrow> 'a list" where
  "js_sort cmp [] = []"
| "js_sort cmp (x # xs) = js_insert cmp x (js_sort cmp xs)"

definition by_price :: "VenuePrice \<Rightarrow> VenuePrice \<Rightarrow> jsnum" where
  "by_price a b = js_sub (price a) (price b)"

definition sortedPrices :: "Engine \<Rightarrow> string \<Rightarrow> VenuePrice list" where
  "sortedPrices e p = js_sort by_price (collectPrices e p)"

definition bestBuyOf :: "Engine \<Rightarrow> string \<Rightarrow> VenuePrice" where
  "bestBuyOf e p = hd (sortedPrices e p)"

definition bestSellOf :: "Engine \<Rightarrow> string \<Rightarrow> VenuePrice" where
  "bestSellOf e p = List.last (sortedPrices e p)"

text \<open>\<open>sellTicker?.bid || bestSell.price\<close>\<close>

definition sellPriceOf :: "Engine \<Rightarrow> string \<Rightarrow> jsnum" where
  "sellPriceOf e p =
     (case tickers e (ticker_key (venue (bestSellOf e p)) p) of
        None \<Rightarrow> price (bestSellOf e p)
      | Some t \<Rightarrow> num_or (bid t) (price (bestSellOf e p)))"

definition spreadOf :: "Engine \<Rightarrow> string \<Rightarrow> jsnum" where
  "spreadOf e p =
     (let priceDiff = js_sub (sellPriceOf e p) (price (bestBuyOf e p))
      in js_mul (js_div priceDiff (price (bestBuyOf e p))) (Num 100))"

text \<open>
  The fee table \<open>EXCHANGE_INFO\<close> lives in the shared schema module; the engine reads its
  \<open>takerFee\<close> column, which is a parameter here.
\<close>

definition profitPercentOf :: "(ExchangeId \<Rightarrow> jsnum) \<Rightarrow> Engine \<Rightarrow> string \<Rightarrow> jsnum" where
  "profitPercentOf takerFee e p =
     (let buyFee = takerFee (venue (bestBuyOf e p));
          sellFee = takerFee (venue (bestSellOf e p));
          totalFees = js_mul (js_add buyFee sellFee) (Num 100)
      in js_sub (spreadOf e p) totalFees)"

definition opportunityKey :: "Engine \<Rightarrow> string \<Rightarrow> string" where
  "opportunityKey e p =
     p @ ''-'' @ exchange_name (venue (bestBuyOf e p)) @ ''-'' @
     exchange_name (venue (bestSellOf e p))"

text \<open>\<open>this.lastOpportunities.get(opportunityKey) || 0\<close>\<close>

definition lastTimeOf :: "Engine \<Rightarrow> string \<Rightarrow> int" where
  "lastTimeOf e k = (case lastOpportunities e k of None \<Rightarrow> 0 | Some t \<Rightarrow> if t = 0 then 0 else t)"

definition analysisResultOf :: "scan_env \<Rightarrow> Engine \<Rightarrow> string \<Rightarrow> AnalysisResult" where
  "analysisResultOf env e p =
     \<lparr> a_pair = p,
       prices = sortedPrices e p,
       bestBuy = bestBuyOf e p,
       bestSell = \<lparr> venue = venue (bestSellOf e p), price = sellPriceOf e p \<rparr>,
       spread = spreadOf e p,
       a_timestamp = now_analysis env \<rparr>"

definition opportunityOf ::
  "(ExchangeId \<Rightarrow> jsnum) \<Rightarrow> scan_env \<Rightarrow> Engine \<Rightarrow> string \<Rightarrow> ArbitrageOpportunity" where
  "opportunityOf takerFee env e p =
     (let buyFee = takerFee (venue (bestBuyOf e p));
          sellFee = takerFee (venue (bestSellOf e p));
          buyPriceHP = toFixed_parsed 12 (price (bestBuyOf e p));
          sellPriceHP = toFixed_parsed 12 (sellPriceOf e p);
          spreadHP = toFixed_parsed 10 (spreadOf e p);
          profitHP = toFixed_parsed 10 (profitPercentOf takerFee e p);
          tradeAmount = tradeAmount (settings e);
          buyFeeUSD = toFixed_parsed 10 (js_mul buyFee tradeAmount);
          sellFeeUSD = toFixed_parsed 10 (js_mul sellFee tradeAmount);
          estimatedProfitUSD = toFixed_parsed 10 (js_mul (js_div profitHP (Num 100)) tradeAmount)
      in \<lparr> opp_id = uuid env,
           opp_pair = p,
           buyExchange = venue (bestBuyOf e p),
           sellExchange = venue (bestSellOf e p),
           buyPrice = buyPriceHP,
           sellPrice = sellPriceHP,
           spreadPercent = spreadHP,
           profitPercent = profitHP,
           estimatedProfit = estimatedProfitUSD,
           volume = Num 0,
           buyFee = buyFeeUSD,
           sellFee = sellFeeUSD,
           opp_timestamp = now_opportunity env \<rparr>)"

text \<open>
  \<open>analyzePair\<close> returns the engine after the call and the events it emitted, in order.
  The literal \<open>0.3\<close> is the binary64 value nearest to three tenths.
\<close>

definition analyzePair ::
  "(ExchangeId \<Rightarrow> jsnum) \<Rightarrow> scan_env \<Rightarrow> string \<Rightarrow> Engine \<Rightarrow> Engine \<times> engine_event list" where
  "analyzePair takerFee env p e =
     (if length (collectPrices e p) < 2 then (e, [])
      else
        (let e1 = e\<lparr>analysisCount := analysisCount e + 1\<rparr>;
             analysis = (if js_ge (spreadOf e p) (Num (round64 (3 / 10)))
                         then [Analysis (analysisResultOf env e p)] else [])
         in if js_ge (profitPercentOf takerFee e p) (minProfitPercent (settings e))
            then
              (if now_check env - lastTimeOf e (opportunityKey e p) < COOLDOWN_MS
               then (e1, analysis)
               else (e1\<lparr>lastOpportunities :=
                          (lastOpportunities e)(opportunityKey e p \<mapsto> now_record env)\<rparr>,
                     analysis @ [Opportunity (opportunityOf takerFee env e p)]))
            else (e1, analysis)))"

text \<open>\<open>analyzeAllPairs\<close>: one scan pass, the enabled pairs in order; \<open>envs i\<close> is what the
  call for the \<open>i\<close>-th pair reads.\<close>

fun analyzePairs ::
  "(ExchangeId \<Rightarrow> jsnum) \<Rightarrow> (nat \<Rightarrow> scan_env) \<Rightarrow> nat \<Rightarrow> string list \<Rightarrow> Engine \<Rightarrow>
     Engine \<times> engine_event list" where
  "analyzePairs takerFee envs i [] e = (e, [])"
| "analyzePairs takerFee envs i (p # ps) e =
     (let (e1, evs1) = analyzePair takerFee (envs i) p e;
          (e2, evs2) = analyzePairs takerFee envs (Suc i) ps e1
      in (e2, evs1 @ evs2))"

definition analyzeAllPairs ::
  "(ExchangeId \<Rightarrow> jsnum) \<Rightarrow> (nat \<Rightarrow> scan_env) \<Rightarrow> Engine \<Rightarrow> Engine \<times> engine_event list" where
  "analyzeAllPairs takerFee envs e = analyzePairs takerFee envs 0 (enabledPairs (settings e)) e"

text \<open>The opportunities among a list of emitted events.\<close>

fun opportunities :: "engine_event list \<Rightarrow> ArbitrageOpportunity list" where
  "opportunities [] = []"
| "opportunities (Opportunity opp # evs) = opp # opportunities evs"
| "opportunities (Analysis a # evs) = opportunities evs"
section \<open>Vocabulary of the engine claims\<close>

text \<open>
  The words of the claims about the engine, over the engine's state: which enabled exchanges
  have a usable ticker for a pair, what the cache holds for them, and what it means for a
  price to be the smallest ask or the largest bid among them.
\<close>

fun the_num :: "jsnum \<Rightarrow> rat" where
  "the_num (Num q) = q" | "the_num NaN = 0"


definition usable :: "Engine \<Rightarrow> string \<Rightarrow> ExchangeId \<Rightarrow> bool" where
  "usable e p ex =
     (case tickers e (ticker_key ex p) of
        None \<Rightarrow> False
      | Some t \<Rightarrow> js_gt (ask t) (Num 0) \<and> js_gt (bid t) (Num 0))"

definition cachedAsk :: "Engine \<Rightarrow> string \<Rightarrow> ExchangeId \<Rightarrow> jsnum" where
  "cachedAsk e p ex = (case tickers e (ticker_key ex p) of None \<Rightarrow> NaN | Some t \<Rightarrow> ask t)"

definition cachedBid :: "Engine \<Rightarrow> string \<Rightarrow> ExchangeId \<Rightarrow> jsnum" where
  "cachedBid e p ex = (case tickers e (ticker_key ex p) of None \<Rightarrow> NaN | Some t \<Rightarrow> bid t)"

definition usableExchanges :: "Engine \<Rightarrow> string \<Rightarrow> ExchangeId list" where
  "usableExchanges e p = filter (usable e p) (enabledExchanges (settings e))"

definition min_ask_among :: "Engine \<Rightarrow> string \<Rightarrow> jsnum \<Rightarrow> bool" where
  "min_ask_among e p x =
     (list_ex (\<lambda>ex. cachedAsk e p ex = x) (usableExchanges e p) \<and>
      list_all (\<lambda>ex. js_le x (cachedAsk e p ex)) (usableExchanges e p))"

definition max_ask_among :: "Engine \<Rightarrow> string \<Rightarrow> jsnum \<Rightarrow> bool" where
  "max_ask_among e p x =
     (list_ex (\<lambda>ex. cachedAsk e p ex = x) (usableExchanges e p) \<and>
      list_all (\<lambda>ex. js_le (cachedAsk e p ex) x) (usableExchanges e p))"

definition max_bid_among :: "Engine \<Rightarrow> string \<Rightarrow> jsnum \<Rightarrow> bool" where
  "max_bid_among e p x =
     (list_ex (\<lambda>ex. cachedBid e p ex = x) (usableExchanges e p) \<and>
      list_all (\<lambda>ex. js_le (cachedBid e p ex) x) (usableExchanges e p))"


subsection \<open>Example markets\<close>

text \<open>
  The taker fee each adapter declares in its own \<open>config\<close>, the settings and the empty state
  the engine's constructor sets up (with one enabled pair), and engines holding two or three
  quotes for that pair.
\<close>

fun config_takerFee :: "ExchangeId \<Rightarrow> jsnum" where
  "config_takerFee Gateio = Num (round64 (2 / 1000))"
| "config_takerFee CoinEx = Num (round64 (2 / 1000))"
| "config_takerFee _ = Num (round64 (1 / 1000))"

definition initial_settings :: Settings where
  "initial_settings =
     \<lparr> minProfitPercent = Num 1,
       enabledExchanges = [Bybit, OKX, MEXC, Bitget, Gateio, KuCoin, CoinEx, BingX],
       enabledPairs = [''BTC/USDT''],
       telegramEnabled = True,
       soundEnabled = True,
       tradeAmount = Num 1000 \<rparr>"

definition initial_engine :: Engine where
  "initial_engine =
     \<lparr> tickers = Map.empty, settings = initial_settings,
       lastOpportunities = Map.empty, analysisCount = 0 \<rparr>"

definition quote_of :: "ExchangeId \<Rightarrow> string \<Rightarrow> rat \<Rightarrow> rat \<Rightarrow> Ticker" where
  "quote_of ex p b a =
     \<lparr> exchange = ex, pair = p, bid = Num b, ask = Num a, last = Num a,
       volume24h = Num 0, change24h = Num 0, timestamp = 1700000000000 \<rparr>"

definition scan_at :: "int \<Rightarrow> scan_env" where
  "scan_at t = \<lparr> now_analysis = t, now_check = t, now_record = t, now_opportunity = t,
                 uuid = ''00000000-0000-4000-8000-000000000000'' \<rparr>"

definition engine_A :: Engine where
  "engine_A =
     updateTicker (quote_of Bitget ''BTC/USDT'' (415 / 4) (831 / 8))
       (updateTicker (quote_of OKX ''BTC/USDT'' (207 / 2) 104)
          (updateTicker (quote_of Bybit ''BTC/USDT'' (199 / 2) 100) initial_engine))"

definition engine_B :: Engine where
  "engine_B =
     updateTicker (quote_of OKX ''BTC/USDT'' 102 (205 / 2))
       (updateTicker (quote_of Bybit ''BTC/USDT'' (199 / 2) 100) initial_engine)"


subsection \<open>What the events of a pass report\<close>

definition reports_selection :: "Engine \<Rightarrow> string \<Rightarrow> engine_event \<Rightarrow> bool" where
  "reports_selection e p ev =
     (case ev of
        Analysis a \<Rightarrow>
          bestBuy a = bestBuyOf e p \<and>
          bestSell a = \<lparr> venue = venue (bestSellOf e p), price = sellPriceOf e p \<rparr>
      | Opportunity opp \<Rightarrow>
          buyExchange opp = venue (bestBuyOf e p) \<and>
          sellExchange opp = venue (bestSellOf e p) \<and>
          buyPrice opp = toFixed_parsed 12 (price (bestBuyOf e p)) \<and>
          sellPrice opp = toFixed_parsed 12 (sellPriceOf e p))"

definition emitted ::
  "(ExchangeId \<Rightarrow> jsnum) \<Rightarrow> scan_env \<Rightarrow> string \<Rightarrow> Engine \<Rightarrow> ArbitrageOpportunity list" where
  "emitted takerFee env p e = opportunities (snd (analyzePair takerFee env p e))"

definition after_pass ::
  "(ExchangeId \<Rightarrow> jsnum) \<Rightarrow> scan_env \<Rightarrow> string \<Rightarrow> Engine \<Rightarrow> Engine" where
  "after_pass takerFee env p e = fst (analyzePair takerFee env p e)"

definition qualifies :: "(ExchangeId \<Rightarrow> jsnum) \<Rightarrow> Engine \<Rightarrow> string \<Rightarrow> bool" where
  "qualifies takerFee e p =
     (2 \<le> length (collectPrices e p) \<and>
      js_ge (profitPercentOf takerFee e p) (minProfitPercent (settings e)))"

definition cooled :: "scan_env \<Rightarrow> Engine \<Rightarrow> string \<Rightarrow> bool" where
  "cooled env e p = (COOLDOWN_MS \<le> now_check env - lastTimeOf e (opportunityKey e p))"





text \<open>
  An engine whose threshold is the profit its market yields, and the engines after a first
  pass at time \<open>T0\<close> and a second one ten seconds later.
\<close>

definition at_threshold :: Engine where
  "at_threshold =
     updateSettings
       \<lparr> new_minProfitPercent = Some (Num (8106479329266893 / 4503599627370496)),
         new_enabledExchanges = None, new_enabledPairs = None, new_telegramEnabled = None,
         new_soundEnabled = None, new_tradeAmount = None \<rparr> engine_B"

definition T0 :: int where "T0 = 1700000000000"

definition pass1 :: Engine where
  "pass1 = after_pass config_takerFee (scan_at T0) ''BTC/USDT'' engine_B"

definition pass2 :: Engine where
  "pass2 = after_pass config_takerFee (scan_at  (T0 + 10000)) ''BTC/USDT'' pass1"

section \<open>Decoded messages\<close>

text \<open>
  The values a handler sees: what \<open>JSON.parse\<close> returns, and \<open>undefined\<close> for a property
  that is not there. An object is the list of its own properties, one entry per key.
\<close>

datatype json =
    JUndefined
  | JNull
  | JBool bool
  | JNumber jsnum
  | JString string
  | JArray "json list"
  | JObject "(string \<times> json) list"

datatype js_error = TypeError

definition nullish :: "json \<Rightarrow> bool" where
  "nullish v = (v = JUndefined \<or> v = JNull)"

fun truthy :: "json \<Rightarrow> bool" where
  "truthy JUndefined = False"
| "truthy JNull = False"
| "truthy (JBool b) = b"
| "truthy (JNumber n) = num_truthy n"
| "truthy (JString s) = (s \<noteq> [])"
| "truthy (JArray xs) = True"
| "truthy (JObject kvs) = True"

definition is_digit :: "char \<Rightarrow> bool" where
  "is_digit c = (let n = (of_char c :: int) in 48 \<le> n \<and> n \<le> 57)"

definition digit_value :: "char \<Rightarrow> int" where
  "digit_value c = of_char c - 48"

definition digits_value :: "string \<Rightarrow> int" where
  "digits_value ds = foldl (\<lambda>acc c. acc * 10 + digit_value c) 0 ds"

text \<open>An array index written as a property key: decimal digits without a leading zero.\<close>

definition array_index :: "string \<Rightarrow> nat option" where
  "array_index k =
     (if k \<noteq> [] \<and> list_all is_digit k \<and> (k = ''0'' \<or> hd k \<noteq> CHR ''0'')
      then Some (nat (digits_value k)) else None)"

text \<open>
  \<open>v.k\<close> and \<open>v[0]\<close> on a value that is neither \<open>null\<close> nor \<open>undefined\<close> (on those the
  access throws, see \<open>get\<close>). The handlers read own data properties, \<open>length\<close> and the
  index 0 only; no key they use is inherited from a prototype.
\<close>

fun js_prop :: "json \<Rightarrow> string \<Rightarrow> json" where
  "js_prop (JObject kvs) k = (case map_of kvs k of None \<Rightarrow> JUndefined | Some v \<Rightarrow> v)"
| "js_prop (JArray xs) k =
     (if k = ''length'' then JNumber (Num (of_nat (length xs)))
      else (case array_index k of
              None \<Rightarrow> JUndefined
            | Some i \<Rightarrow> if i < length xs then xs ! i else JUndefined))"
| "js_prop (JString s) k =
     (if k = ''length'' then JNumber (Num (of_nat (length s)))
      else (case array_index k of
              None \<Rightarrow> JUndefined
            | Some i \<Rightarrow> if i < length s then JString [s ! i] else JUndefined))"
| "js_prop _ k = JUndefined"

definition get :: "json \<Rightarrow> string \<Rightarrow> js_error + json" where
  "get v k = (if nullish v then Inl TypeError else Inr (js_prop v k))"

definition and_then :: "js_error + 'a \<Rightarrow> ('a \<Rightarrow> js_error + 'b) \<Rightarrow> js_error + 'b" where
  "and_then r f = (case r of Inl err \<Rightarrow> Inl err | Inr v \<Rightarrow> f v)"

subsection \<open>\<open>parseFloat\<close>\<close>

text \<open>
  \<open>parseFloat\<close> of a string skips leading white space and reads the longest prefix that is
  a decimal literal: a sign, digits with an optional fraction (or a fraction alone) and an
  exponent if digits follow the \<open>e\<close>; the value is rounded to binary64. Without such a prefix
  the result is \<open>NaN\<close>. The literal \<open>Infinity\<close> is outside the number model and is read as
  no number.
\<close>

definition is_space :: "char \<Rightarrow> bool" where
  "is_space c = (let n = (of_char c :: int) in n = 32 \<or> (9 \<le> n \<and> n \<le> 13))"

definition pow10 :: "int \<Rightarrow> rat" where
  "pow10 k = (if 0 \<le> k then 10 ^ nat k else 1 / 10 ^ nat (- k))"

definition take_sign :: "string \<Rightarrow> bool \<times> string" where
  "take_sign s =
     (case s of
        c # r \<Rightarrow> if c = CHR ''-'' then (True, r) else if c = CHR ''+'' then (False, r)
                 else (False, s)
      | [] \<Rightarrow> (False, s))"

definition take_exponent :: "string \<Rightarrow> int" where
  "take_exponent s =
     (case s of
        c # r \<Rightarrow>
          if c = CHR ''e'' \<or> c = CHR ''E''
          then (let (neg, r') = take_sign r; ds = takeWhile is_digit r'
                in if ds = [] then 0
                   else if neg then - digits_value ds else digits_value ds)
          else 0
      | [] \<Rightarrow> 0)"

definition parseFloat_string :: "string \<Rightarrow> jsnum" where
  "parseFloat_string s =
     (let (neg, s1) = take_sign (dropWhile is_space s);
          ip = takeWhile is_digit s1;
          r1 = dropWhile is_digit s1;
          fp = (case r1 of c # r \<Rightarrow> if c = CHR ''.'' then takeWhile is_digit r else [] | [] \<Rightarrow> []);
          r2 = (case r1 of c # r \<Rightarrow> if c = CHR ''.'' then dropWhile is_digit r else r1 | [] \<Rightarrow> [])
      in if ip = [] \<and> fp = [] then NaN
         else (let v = of_int (digits_value (ip @ fp)) / 10 ^ length fp * pow10 (take_exponent r2)
               in Num (round64 (if neg then - v else v))))"

text \<open>
  \<open>parseFloat\<close> converts its argument to a string first. A number prints to a literal that
  reads back as itself; \<open>undefined\<close>, \<open>null\<close>, a boolean and an object print to text that
  is no number; an array prints its elements separated by commas, so only its first element
  is read.
\<close>

fun parseFloat :: "json \<Rightarrow> jsnum" where
  "parseFloat (JString s) = parseFloat_string s"
| "parseFloat (JNumber n) = n"
| "parseFloat (JArray (x # xs)) = parseFloat x"
| "parseFloat _ = NaN"

section \<open>Events of a connector\<close>

datatype conn_status = connected | connecting | disconnected | error

record ConnectionStatus =
  cs_exchange :: ExchangeId
  status :: conn_status
  lastUpdate :: int
  errorMessage :: "string option"

record Level =
  level_price :: jsnum
  amount :: jsnum

record OrderBook =
  ob_exchange :: ExchangeId
  ob_pair :: string
  bids :: "Level list"
  asks :: "Level list"
  ob_timestamp :: int

text \<open>
  What a connector emits (\<open>status\<close>, \<open>ticker\<close>, \<open>orderbook\<close>) and what it writes to a socket:
  \<open>Sent i v\<close> is \<open>ws.send(JSON.stringify(v))\<close> on the socket \<open>i\<close>.
\<close>

datatype conn_event =
    StatusEvent ConnectionStatus
  | TickerEvent Ticker
  | OrderBookEvent OrderBook
  | Sent nat json

section \<open>The Bitget and Bybit adapters\<close>

text \<open>
  A handler returns the events it emits, or the error it throws; both adapters emit as the
  last thing they do. \<open>now\<close> is the reading of \<open>Date.now()\<close>.
\<close>

text \<open>\<open>this.parseSymbol(x)\<close> on a decoded value: a method of strings is called on \<open>x\<close>.\<close>

definition parseSymbol_of :: "ExchangeId \<Rightarrow> json \<Rightarrow> js_error + string" where
  "parseSymbol_of ex v = (case v of JString s \<Rightarrow> Inr (parseSymbol ex s) | _ \<Rightarrow> Inl TypeError)"

text \<open>
  \<open>([price, amount]) => ({ price: parseFloat(price), amount: parseFloat(amount) })\<close>:
  the entry is destructured as an iterable, which an array and a string are.
\<close>

definition level_of :: "json \<Rightarrow> js_error + Level" where
  "level_of entry =
     (case entry of
        JArray xs \<Rightarrow>
          Inr \<lparr> level_price = parseFloat (js_prop (JArray xs) ''0''),
                amount = parseFloat (js_prop (JArray xs) ''1'') \<rparr>
      | JString s \<Rightarrow>
          Inr \<lparr> level_price = parseFloat (js_prop (JString s) ''0''),
                amount = parseFloat (js_prop (JString s) ''1'') \<rparr>
      | _ \<Rightarrow> Inl TypeError)"

fun levels_of :: "json list \<Rightarrow> js_error + Level list" where
  "levels_of [] = Inr []"
| "levels_of (x # xs) =
     and_then (level_of x) (\<lambda>l. and_then (levels_of xs) (\<lambda>ls. Inr (l # ls)))"

text \<open>\<open>(side || []).map(...)\<close>\<close>

definition book_side :: "json \<Rightarrow> js_error + Level list" where
  "book_side side =
     (if \<not> truthy side then Inr []
      else (case side of JArray xs \<Rightarrow> levels_of xs | _ \<Rightarrow> Inl TypeError))"

subsection \<open>Bitget\<close>

definition bitget_handleTicker :: "int \<Rightarrow> json \<Rightarrow> json \<Rightarrow> js_error + conn_event list" where
  "bitget_handleTicker now instId d =
     and_then (parseSymbol_of Bitget instId) (\<lambda>p.
     and_then (get d ''bidPr'') (\<lambda>bidPr.
     and_then (get d ''askPr'') (\<lambda>askPr.
     and_then (get d ''lastPr'') (\<lambda>lastPr.
     and_then (get d ''baseVolume'') (\<lambda>baseVolume.
     and_then (get d ''change24h'') (\<lambda>change.
       Inr [TickerEvent
         \<lparr> exchange = Bitget,
           pair = p,
           bid = num_or (parseFloat bidPr) (Num 0),
           ask = num_or (parseFloat askPr) (Num 0),
           last = num_or (parseFloat lastPr) (Num 0),
           volume24h = num_or (parseFloat baseVolume) (Num 0),
           change24h = num_or (js_mul (parseFloat change) (Num 100)) (Num 0),
           timestamp = now \<rparr>]))))))"

definition bitget_handleOrderBook :: "int \<Rightarrow> json \<Rightarrow> json \<Rightarrow> js_error + conn_event list" where
  "bitget_handleOrderBook now instId d =
     and_then (parseSymbol_of Bitget instId) (\<lambda>p.
     and_then (get d ''bids'') (\<lambda>b.
     and_then (book_side b) (\<lambda>bs.
     and_then (get d ''asks'') (\<lambda>a.
     and_then (book_side a) (\<lambda>as.
       Inr [OrderBookEvent
         \<lparr> ob_exchange = Bitget, ob_pair = p, bids = bs, asks = as,
           ob_timestamp = now \<rparr>])))))"

definition bitget_handleMessage :: "int \<Rightarrow> json \<Rightarrow> js_error + conn_event list" where
  "bitget_handleMessage now msg =
     and_then (get msg ''arg'') (\<lambda>arg.
       if \<not> truthy arg then Inr []
       else
         and_then (get msg ''data'') (\<lambda>data.
           if \<not> truthy data then Inr []
           else if js_prop data ''length'' = JNumber (Num 0) then Inr []
           else if js_prop arg ''channel'' = JString ''ticker''
             then bitget_handleTicker now (js_prop arg ''instId'') (js_prop data ''0'')
           else if js_prop arg ''channel'' = JString ''books5''
             then bitget_handleOrderBook now (js_prop arg ''instId'') (js_prop data ''0'')
           else Inr []))"

definition bitget_args :: "string list \<Rightarrow> json list" where
  "bitget_args pairs =
     concat (map (\<lambda>p.
       [JObject [(''instType'', JString ''SPOT''), (''channel'', JString ''ticker''),
                 (''instId'', JString (formatSymbol Bitget p))],
        JObject [(''instType'', JString ''SPOT''), (''channel'', JString ''books5''),
                 (''instId'', JString (formatSymbol Bitget p))]]) pairs)"

definition bitget_sendSubscribe :: "int \<Rightarrow> string list \<Rightarrow> json list" where
  "bitget_sendSubscribe now pairs =
     [JObject [(''op'', JString ''subscribe''), (''args'', JArray (bitget_args pairs))]]"

definition bitget_sendUnsubscribe :: "int \<Rightarrow> string list \<Rightarrow> json list" where
  "bitget_sendUnsubscribe now pairs =
     [JObject [(''op'', JString ''unsubscribe''), (''args'', JArray (bitget_args pairs))]]"

definition op_ping :: "int \<Rightarrow> json list" where
  "op_ping now = [JObject [(''op'', JString ''ping'')]]"

subsection \<open>Bybit\<close>








section \<open>The connector life cycle\<close>

text \<open>
  \<open>BaseExchange\<close> together with what it drives: the sockets it has created, with their
  \<open>readyState\<close>, and the timers it has set and not yet cleared. A socket or a timer is named
  by a number; \<open>ws\<close>, \<open>reconnectTimeout\<close> and \<open>pingInterval\<close> hold such a name or \<open>null\<close>.
  \<open>subscribedPairs\<close> is a \<open>Set\<close>, kept in insertion order. \<open>events\<close> collects everything the
  connector emits or sends, in order.
\<close>

datatype readyState = CONNECTING | OPEN | CLOSING | CLOSED

datatype timer_kind = Reconnect | Ping

record Connector =
  ws :: "nat option"
  isConnected :: bool
  reconnectTimeout :: "nat option"
  pingInterval :: "nat option"
  subscribedPairs :: "string list"
  sockets :: "readyState list"
  timers :: "(nat \<times> timer_kind) list"
  next_timer :: nat
  events :: "conn_event list"

definition new_connector :: Connector where
  "new_connector =
     \<lparr> ws = None, isConnected = False, reconnectTimeout = None, pingInterval = None,
       subscribedPairs = [], sockets = [], timers = [], next_timer = 0, events = [] \<rparr>"

text \<open>
  What an adapter adds to \<open>BaseExchange\<close>: its id, the payloads its hooks pass to \<open>send\<close>,
  and its message handler; \<open>constructs\<close> tells whether \<open>new WebSocket(config.wsUrl, ...)\<close>
  returns a socket, which it does for a well-formed URL, or throws.
\<close>

record Adapter =
  adapter_id :: ExchangeId
  constructs :: bool
  onConnected :: "int \<Rightarrow> string list \<Rightarrow> json list"
  sendSubscribe :: "int \<Rightarrow> string list \<Rightarrow> json list"
  sendUnsubscribe :: "int \<Rightarrow> string list \<Rightarrow> json list"
  sendPing :: "int \<Rightarrow> json list"
  handleMessage :: "int \<Rightarrow> json \<Rightarrow> js_error + conn_event list"

text \<open>
  \<open>onConnected\<close> as Bybit, OKX, Bitget, Gate.io, CoinEx and BingX write it:
  \<open>if (this.subscribedPairs.size > 0) this.sendSubscribe([...this.subscribedPairs])\<close>.
\<close>

definition replay_all :: "(int \<Rightarrow> string list \<Rightarrow> json list) \<Rightarrow> int \<Rightarrow> string list \<Rightarrow> json list" where
  "replay_all subscribe now pairs = (if 0 < length pairs then subscribe now pairs else [])"

definition bitget_adapter :: Adapter where
  "bitget_adapter =
     \<lparr> adapter_id = Bitget, constructs = True,
       onConnected = replay_all bitget_sendSubscribe,
       sendSubscribe = bitget_sendSubscribe,
       sendUnsubscribe = bitget_sendUnsubscribe,
       sendPing = op_ping,
       handleMessage = bitget_handleMessage \<rparr>"


subsection \<open>Frames\<close>

text \<open>
  An inbound frame is a \<open>Buffer\<close> (or an \<open>ArrayBuffer\<close>), given by its bytes, or something else
  of which only \<open>toString()\<close> is used. The text of a buffer is modelled by its bytes.
  \<open>zlib.gunzipSync\<close>, \<open>zlib.inflateSync\<close> and \<open>JSON.parse\<close> are library functions and
  parameters here; \<open>None\<close> stands for the exception each of them can throw.
\<close>

datatype frame = Binary string | Other string

record Codec =
  gunzipSync :: "string \<Rightarrow> string option"
  inflateSync :: "string \<Rightarrow> string option"
  JSON_parse :: "string \<Rightarrow> json option"

text \<open>\<open>buffer[0] === 0x1f && buffer[1] === 0x8b\<close>\<close>

definition gzip_magic :: "string \<Rightarrow> bool" where
  "gzip_magic b =
     (case b of
        b0 # b1 # rest \<Rightarrow> (of_char b0 :: int) = 31 \<and> (of_char b1 :: int) = 139
      | _ \<Rightarrow> False)"

text \<open>The text of a frame; \<open>None\<close> is the \<open>null\<close> that \<open>messageStr\<close> starts with.\<close>

definition messageStr :: "Codec \<Rightarrow> frame \<Rightarrow> string option" where
  "messageStr codec data =
     (case data of
        Binary buffer \<Rightarrow>
          if gzip_magic buffer
          then (case gunzipSync codec buffer of
                  Some s \<Rightarrow> Some s
                | None \<Rightarrow> inflateSync codec buffer)
          else Some buffer
      | Other s \<Rightarrow> Some s)"

subsection \<open>The methods of \<open>BaseExchange\<close>\<close>

definition emit :: "conn_event \<Rightarrow> Connector \<Rightarrow> Connector" where
  "emit ev c = c\<lparr>events := events c @ [ev]\<rparr>"

definition emit_status :: "Adapter \<Rightarrow> int \<Rightarrow> conn_status \<Rightarrow> string option \<Rightarrow> Connector \<Rightarrow> Connector" where
  "emit_status ad now st msg c =
     emit (StatusEvent \<lparr> cs_exchange = adapter_id ad, status = st, lastUpdate = now,
                         errorMessage = msg \<rparr>) c"

definition socket_state :: "Connector \<Rightarrow> nat \<Rightarrow> readyState option" where
  "socket_state c i = (if i < length (sockets c) then Some (sockets c ! i) else None)"

text \<open>\<open>this.ws?.readyState === WebSocket.OPEN\<close>\<close>

definition ws_is_open :: "Connector \<Rightarrow> bool" where
  "ws_is_open c = (case ws c of None \<Rightarrow> False | Some i \<Rightarrow> socket_state c i = Some OPEN)"

definition send :: "json \<Rightarrow> Connector \<Rightarrow> Connector" where
  "send data c =
     (case ws c of
        None \<Rightarrow> c
      | Some i \<Rightarrow> if socket_state c i = Some OPEN then emit (Sent i data) c else c)"

definition send_all :: "json list \<Rightarrow> Connector \<Rightarrow> Connector" where
  "send_all msgs c = foldl (\<lambda>c' m. send m c') c msgs"

definition set_timer :: "timer_kind \<Rightarrow> Connector \<Rightarrow> Connector" where
  "set_timer k c = c\<lparr>timers := timers c @ [(next_timer c, k)], next_timer := Suc (next_timer c)\<rparr>"

definition clear_timer :: "nat \<Rightarrow> Connector \<Rightarrow> Connector" where
  "clear_timer t c = c\<lparr>timers := filter (\<lambda>(i, k). i \<noteq> t) (timers c)\<rparr>"

definition scheduleReconnect :: "Connector \<Rightarrow> Connector" where
  "scheduleReconnect c =
     (case reconnectTimeout c of
        Some t \<Rightarrow> c
      | None \<Rightarrow> (set_timer Reconnect c)\<lparr>reconnectTimeout := Some (next_timer c)\<rparr>)"

definition startPing :: "Connector \<Rightarrow> Connector" where
  "startPing c = (set_timer Ping c)\<lparr>pingInterval := Some (next_timer c)\<rparr>"

definition stopPing :: "Connector \<Rightarrow> Connector" where
  "stopPing c =
     (case pingInterval c of
        None \<Rightarrow> c
      | Some t \<Rightarrow> (clear_timer t c)\<lparr>pingInterval := None\<rparr>)"

definition connect :: "Adapter \<Rightarrow> int \<Rightarrow> Connector \<Rightarrow> Connector" where
  "connect ad now c =
     (if ws_is_open c then c
      else (let c1 = emit_status ad now connecting None c
            in if constructs ad
               then c1\<lparr>sockets := sockets c1 @ [CONNECTING], ws := Some (length (sockets c1))\<rparr>
               else scheduleReconnect c1))"

text \<open>\<open>ws.close()\<close> starts the closing of a socket that is connecting or open.\<close>

definition close_socket :: "nat \<Rightarrow> Connector \<Rightarrow> Connector" where
  "close_socket i c =
     (if socket_state c i = Some CONNECTING \<or> socket_state c i = Some OPEN
      then c\<lparr>sockets := (sockets c)[i := CLOSING]\<rparr> else c)"

definition disconnect :: "Connector \<Rightarrow> Connector" where
  "disconnect c =
     (let c1 = (case reconnectTimeout c of
                  None \<Rightarrow> c
                | Some t \<Rightarrow> (clear_timer t c)\<lparr>reconnectTimeout := None\<rparr>);
          c2 = stopPing c1;
          c3 = (case ws c2 of
                  None \<Rightarrow> c2
                | Some i \<Rightarrow> (close_socket i c2)\<lparr>ws := None\<rparr>)
      in c3\<lparr>isConnected := False\<rparr>)"

definition set_add :: "string \<Rightarrow> string list \<Rightarrow> string list" where
  "set_add p ps = (if p \<in> set ps then ps else ps @ [p])"

definition set_delete :: "string \<Rightarrow> string list \<Rightarrow> string list" where
  "set_delete p ps = filter (\<lambda>q. q \<noteq> p) ps"

definition subscribe :: "Adapter \<Rightarrow> int \<Rightarrow> string list \<Rightarrow> Connector \<Rightarrow> Connector" where
  "subscribe ad now pairs c =
     (let c1 = c\<lparr>subscribedPairs := foldl (\<lambda>ps p. set_add p ps) (subscribedPairs c) pairs\<rparr>
      in if isConnected c1 then send_all (sendSubscribe ad now pairs) c1 else c1)"

definition unsubscribe :: "Adapter \<Rightarrow> int \<Rightarrow> string list \<Rightarrow> Connector \<Rightarrow> Connector" where
  "unsubscribe ad now pairs c =
     (let c1 = c\<lparr>subscribedPairs := foldl (\<lambda>ps p. set_delete p ps) (subscribedPairs c) pairs\<rparr>
      in if isConnected c1 then send_all (sendUnsubscribe ad now pairs) c1 else c1)"

subsection \<open>The handlers \<open>connect\<close> attaches to a socket\<close>

definition on_open :: "Adapter \<Rightarrow> int \<Rightarrow> Connector \<Rightarrow> Connector" where
  "on_open ad now c =
     (let c1 = c\<lparr>isConnected := True\<rparr>;
          c2 = emit_status ad now connected None c1;
          c3 = send_all (onConnected ad now (subscribedPairs c2)) c2
      in startPing c3)"

definition on_message :: "Adapter \<Rightarrow> Codec \<Rightarrow> int \<Rightarrow> frame \<Rightarrow> Connector \<Rightarrow> Connector" where
  "on_message ad codec now data c =
     (case messageStr codec data of
        None \<Rightarrow> c
      | Some s \<Rightarrow>
          if s = [] then c
          else (case JSON_parse codec s of
                  None \<Rightarrow> c
                | Some message \<Rightarrow>
                    (case handleMessage ad now message of
                       Inl err \<Rightarrow> c
                     | Inr evs \<Rightarrow> c\<lparr>events := events c @ evs\<rparr>)))"

definition on_close :: "Adapter \<Rightarrow> int \<Rightarrow> Connector \<Rightarrow> Connector" where
  "on_close ad now c =
     (let c1 = c\<lparr>isConnected := False\<rparr>;
          c2 = emit_status ad now disconnected None c1;
          c3 = stopPing c2
      in scheduleReconnect c3)"

definition on_error :: "Adapter \<Rightarrow> int \<Rightarrow> string \<Rightarrow> Connector \<Rightarrow> Connector" where
  "on_error ad now message c = emit_status ad now error (Some message) c"

text \<open>The callbacks of the two timers.\<close>

definition reconnect_fires :: "Adapter \<Rightarrow> int \<Rightarrow> Connector \<Rightarrow> Connector" where
  "reconnect_fires ad now c = connect ad now (c\<lparr>reconnectTimeout := None\<rparr>)"

definition ping_fires :: "Adapter \<Rightarrow> int \<Rightarrow> Connector \<Rightarrow> Connector" where
  "ping_fires ad now c = send_all (sendPing ad now) c"

subsection \<open>What happens to a connector\<close>

text \<open>
  A connector is called by its owner, hears from its sockets and has its timers fire. A
  socket opens while it is connecting, delivers messages while it is open, reports an error
  or closes unless it is closed already; an error leaves it closing, and the transport
  closes a socket after reporting an error on it. A timeout fires once, an interval
  again and again, either only while it has not been cleared. Anything else leaves the
  connector as it is.
\<close>

datatype happening =
    Connect
  | Disconnect
  | Subscribe "string list"
  | Unsubscribe "string list"
  | SocketOpen nat
  | SocketMessage nat frame
  | SocketError nat string
  | SocketClose nat
  | TimerFires nat

definition set_socket :: "nat \<Rightarrow> readyState \<Rightarrow> Connector \<Rightarrow> Connector" where
  "set_socket i s c = c\<lparr>sockets := (sockets c)[i := s]\<rparr>"

fun step :: "Adapter \<Rightarrow> Codec \<Rightarrow> int \<times> happening \<Rightarrow> Connector \<Rightarrow> Connector" where
  "step ad codec (now, Connect) c = connect ad now c"
| "step ad codec (now, Disconnect) c = disconnect c"
| "step ad codec (now, Subscribe pairs) c = subscribe ad now pairs c"
| "step ad codec (now, Unsubscribe pairs) c = unsubscribe ad now pairs c"
| "step ad codec (now, SocketOpen i) c =
     (if socket_state c i = Some CONNECTING then on_open ad now (set_socket i OPEN c) else c)"
| "step ad codec (now, SocketMessage i data) c =
     (if socket_state c i = Some OPEN then on_message ad codec now data c else c)"
| "step ad codec (now, SocketError i message) c =
     (if socket_state c i \<noteq> None \<and> socket_state c i \<noteq> Some CLOSED
      then on_error ad now message (set_socket i CLOSING c) else c)"
| "step ad codec (now, SocketClose i) c =
     (if socket_state c i \<noteq> None \<and> socket_state c i \<noteq> Some CLOSED
      then on_close ad now (set_socket i CLOSED c) else c)"
| "step ad codec (now, TimerFires t) c =
     (case map_of (timers c) t of
        None \<Rightarrow> c
      | Some Reconnect \<Rightarrow> reconnect_fires ad now (clear_timer t c)
      | Some Ping \<Rightarrow> ping_fires ad now c)"

definition run :: "Adapter \<Rightarrow> Codec \<Rightarrow> (int \<times> happening) list \<Rightarrow> Connector \<Rightarrow> Connector" where
  "run ad codec hs c = foldl (\<lambda>c' h. step ad codec h c') c hs"


subsection \<open>Reading a connector\<close>

definition pending :: "timer_kind \<Rightarrow> Connector \<Rightarrow> nat list" where
  "pending k c = map fst (filter (\<lambda>(i, k'). k' = k) (timers c))"

definition handle_list :: "nat option \<Rightarrow> nat list" where
  "handle_list h = (case h of None \<Rightarrow> [] | Some t \<Rightarrow> [t])"

text \<open>The events a step added.\<close>

definition added :: "Connector \<Rightarrow> Connector \<Rightarrow> conn_event list" where
  "added c c' = drop (length (events c)) (events c')"

section \<open>Vocabulary of the connector claims\<close>

text \<open>
  The invariant of the timers: the pending reconnect timers are exactly the one that
  \<open>reconnectTimeout\<close> names; every timer has a name of its own, below the next one to be given
  out; and \<open>pingInterval\<close> never names a reconnect timer.
\<close>

definition timers_ok :: "Connector \<Rightarrow> bool" where
  "timers_ok c =
     (pending Reconnect c = handle_list (reconnectTimeout c) \<and>
      distinct (map fst (timers c)) \<and>
      (\<forall>(i, k) \<in> set (timers c). i < next_timer c) \<and>
      (\<forall>p. pingInterval c = Some p \<longrightarrow> p < next_timer c \<and> (p, Reconnect) \<notin> set (timers c)))"

text \<open>A codec for connections on which no message arrives.\<close>

definition null_codec :: Codec where
  "null_codec = \<lparr> gunzipSync = (\<lambda>b. None), inflateSync = (\<lambda>b. None), JSON_parse = (\<lambda>s. None) \<rparr>"



subsection \<open>Example frames and traces\<close>

text \<open>
  A Bitget ticker frame as text, as the value \<open>JSON.parse\<close> gives for it and as its gzip
  stream; a frame without usable prices; and a codec that knows these.
\<close>

definition ticker_text :: string where
  \<open>ticker_text = ''{"action":"snapshot","arg":{"instType":"SPOT","channel":"ticker","instId":"BTCUSDT"},"data":[{"instId":"BTCUSDT","lastPr":"67250.5","bidPr":"67250.4","askPr":"67250.5","baseVolume":"1234.5","change24h":"0.0125"}]}''\<close>

definition ticker_json :: json where
  "ticker_json =
     JObject [(''action'', JString ''snapshot''),
              (''arg'', JObject [(''instType'', JString ''SPOT''), (''channel'', JString ''ticker''),
                                 (''instId'', JString ''BTCUSDT'')]),
              (''data'', JArray [JObject [(''instId'', JString ''BTCUSDT''),
                                          (''lastPr'', JString ''67250.5''),
                                          (''bidPr'', JString ''67250.4''),
                                          (''askPr'', JString ''67250.5''),
                                          (''baseVolume'', JString ''1234.5''),
                                          (''change24h'', JString ''0.0125'')]])]"

definition ticker_gzip :: string where
  "ticker_gzip =
     [CHR 0x1F, CHR 0x8B, CHR 0x08, CHR 0x00, CHR 0x00, CHR 0x00, CHR 0x00, CHR 0x00, CHR 0x02,
      CHR 0xFF, CHR 0x65, CHR 0xCE, CHR 0xB1, CHR 0x0E, CHR 0x82, CHR 0x30, CHR 0x14, CHR 0x85,
      CHR 0xE1, CHR 0x77, CHR 0xB9, CHR 0x33, CHR 0x21, CHR 0xA5, CHR 0x16, CHR 0x4D, CHR 0x3A,
      CHR 0xAA, CHR 0x0B, CHR 0x93, CHR 0x24, CHR 0x54, CHR 0x17, CHR 0xE3, CHR 0x70, CHR 0x85,
      CHR 0x06, CHR 0x1A, CHR 0x6A, CHR 0x21, CHR 0xB4, CHR 0x0E, CHR 0xA6, CHR 0xE1, CHR 0xDD,
      CHR 0xBD, CHR 0x75, CHR 0x32, CHR 0xBA, CHR 0x7E, CHR 0xFF, CHR 0x19, CHR 0x4E, CHR 0x04,
      CHR 0x6C, CHR 0x83, CHR 0x99, CHR 0x1C, CHR 0x48, CHR 0xF0, CHR 0x0E, CHR 0x67, CHR 0x3F,
      CHR 0x4C, CHR 0x01, CHR 0x32, CHR 0xC0, CHR 0xA5, CHR 0x07, CHR 0x19, CHR 0xC1, CHR 0x38,
      CHR 0x1F, CHR 0xD4, CHR 0x6B, CHR 0xD6, CHR 0x14, CHR 0x9B, CHR 0xFA, CHR 0xA4, CHR 0x28,
      CHR 0xB4, CHR 0x03, CHR 0x3A, CHR 0xA7, CHR 0x2D, CHR 0x41, CHR 0x30, CHR 0xED, CHR 0xA8,
      CHR 0x17, CHR 0xA2, CHR 0x34, CHR 0xAA, CHR 0x3A, CHR 0x92, CHR 0xBD, CHR 0x3A, CHR 0x9C,
      CHR 0x9B, CHR 0xA3, CHR 0x82, CHR 0x35, CHR 0x83, CHR 0x0E, CHR 0x03, CHR 0x82, CHR 0xBC,
      CHR 0xC6, CHR 0xFF, CHR 0x98, CHR 0x81, CHR 0x45, CHR 0x1F, CHR 0xEA, CHR 0x85, CHR 0x68,
      CHR 0xBB, CHR 0xE3, CHR 0x25, CHR 0xCB, CHR 0x4B, CHR 0xA2, CHR 0xBB, CHR 0xE9, CHR 0xBE,
      CHR 0x44, CHR 0xA4, CHR 0x03, CHR 0x7E, CHR 0xFC, CHR 0xDD, CHR 0xA0, CHR 0xD7, CHR 0x97,
      CHR 0xC9, CHR 0x3E, CHR 0x1F, CHR 0xE9, CHR 0x4D, CHR 0xC1, CHR 0x37, CHR 0xE2, CHR 0xA3,
      CHR 0xE9, CHR 0x4F, CHR 0xAF, CHR 0xB9, CHR 0x18, CHR 0x08, CHR 0x59, CHR 0xCE, CHR 0x0A,
      CHR 0x5E, CHR 0xC2, CHR 0x7A, CHR 0x5B, CHR 0xDF, CHR 0x6F, CHR 0xC6, CHR 0xFE, CHR 0x37,
      CHR 0xD5, CHR 0x00, CHR 0x00, CHR 0x00]"

definition bad_text :: string where
  \<open>bad_text = ''{"arg":{"instType":"SPOT","channel":"ticker","instId":"BTCUSDT"},"data":[{"instId":"BTCUSDT","lastPr":"","bidPr":"n/a","baseVolume":"0"}]}''\<close>

definition bad_data :: json where
  "bad_data =
     JObject [(''instId'', JString ''BTCUSDT''), (''lastPr'', JString ''''),
              (''bidPr'', JString ''n/a''), (''baseVolume'', JString ''0'')]"

definition bad_json :: json where
  "bad_json =
     JObject [(''arg'', JObject [(''instType'', JString ''SPOT''), (''channel'', JString ''ticker''),
                                 (''instId'', JString ''BTCUSDT'')]),
              (''data'', JArray [bad_data])]"

definition example_codec :: Codec where
  "example_codec =
     \<lparr> gunzipSync = (\<lambda>b. if b = ticker_gzip then Some ticker_text else None),
       inflateSync = (\<lambda>b. None),
       JSON_parse = (\<lambda>s. if s = ticker_text then Some ticker_json
                          else if s = bad_text then Some bad_json else None) \<rparr>"


definition open_trace :: "(int \<times> happening) list" where
  "open_trace = [(0, Connect), (0, Subscribe [''BTC/USDT'']), (1000, SocketOpen 0)]"

definition connected_bitget :: Connector where
  "connected_bitget = run bitget_adapter example_codec open_trace new_connector"


definition good_ticker :: Ticker where
  "good_ticker =
     \<lparr> exchange = Bitget, pair = ''BTC/USDT'', bid = Num (round64 (672504 / 10)),
       ask = Num (134501 / 2), last = Num (134501 / 2), volume24h = Num (2469 / 2),
       change24h = Num (5 / 4), timestamp = 2000 \<rparr>"



section \<open>Symbol translation: the round trip\<close>

lemma js_replace_first:
  "\<forall>k<length B. \<not> prefix p (drop k (B @ t)) \<Longrightarrow> prefix p t \<Longrightarrow>
     js_replace p r (B @ t) = B @ r @ drop (length p) t"
proof (induction B)
  case Nil
  then show ?case by (cases t) auto
next
  case (Cons c cs)
  from Cons.prems(1) have "\<not> prefix p (c # cs @ t)" by force
  moreover have "\<forall>k<length cs. \<not> prefix p (drop k (cs @ t))"
  proof (intro allI impI)
    fix k assume "k < length cs"
    then have "Suc k < length (c # cs)" by simp
    with Cons.prems(1) have "\<not> prefix p (drop (Suc k) ((c # cs) @ t))" by blast
    then show "\<not> prefix p (drop k (cs @ t))" by simp
  qed
  ultimately show ?case using Cons.IH Cons.prems(2) by simp
qed

text \<open>Neither quote name overlaps itself: no proper non-empty end of it is a beginning of it.\<close>

lemma quote_border_free:
  assumes "q = ''USDT'' \<or> q = ''USDC''" "q = D @ us" "prefix us q" "D \<noteq> []"
  shows "us = []"
  using assms by (auto simp: Cons_eq_append_conv prefix_Cons)

lemma quote_first_occurrence:
  assumes q: "q = ''USDT'' \<or> q = ''USDC''" and ns: "\<not> sublist q B" and k: "k < length B"
  shows "\<not> prefix q (drop k (B @ q))"
proof
  assume pre: "prefix q (drop k (B @ q))"
  let ?D = "drop k B"
  from k have D: "?D \<noteq> []" and eq: "drop k (B @ q) = ?D @ q" by auto
  have nD: "\<not> prefix q ?D"
    using ns by (metis prefix_imp_sublist sublist_drop sublist_order.order_trans)
  with pre eq obtain us where us: "q = ?D @ us" "prefix us q"
    by (auto simp: prefix_append)
  from quote_border_free[OF q us D] us(1) have "q = ?D" by simp
  with nD show False by simp
qed

lemma js_replace_quote:
  assumes q: "q = ''USDT'' \<or> q = ''USDC''" and ns: "\<not> sublist q B"
  shows "js_replace q r (B @ q) = B @ r"
  using js_replace_first[of B q q r] quote_first_occurrence[OF q ns] by simp

lemma js_replace_char:
  "c \<notin> set B \<Longrightarrow> js_replace [c] r (B @ c # t) = B @ r @ t"
  by (induction B) (auto simp: prefix_Cons)

lemma no_separator_set:
  "no_separator B \<Longrightarrow> CHR ''/'' \<notin> set B \<and> CHR ''-'' \<notin> set B \<and> CHR ''_'' \<notin> set B"
  by (auto simp: no_separator_def separators_def list_all_iff)

lemma concat_parse_inverse:
  assumes q: "q = ''USDT'' \<or> q = ''USDC''" and ns: "\<not> sublist q B"
  shows "concat_parseSymbol (B @ q) = B @ ''/'' @ q"
proof -
  have r: "js_replace q [] (B @ q) = B"
    using js_replace_quote[OF q ns, of "[]"] by simp
  from q show ?thesis
  proof
    assume "q = ''USDT''"
    with r show ?thesis by (simp add: concat_parseSymbol_def endsWith_def suffix_def)
  next
    assume c: "q = ''USDC''"
    have "\<not> suffix ''USDT'' (B @ ''USDC'')"
      by (simp add: suffix_to_prefix)
    moreover have "suffix ''USDC'' (B @ ''USDC'')" by (simp add: suffix_def)
    ultimately show ?thesis using r c by (simp add: concat_parseSymbol_def endsWith_def)
  qed
qed

lemma toUpperCase_id: "plain_upper s \<Longrightarrow> toUpperCase s = s"
  by (induction s) (auto simp: plain_upper_def toUpperCase_def upper_char_def is_lower_def Let_def)

text \<open>
  C9 (as amended). For a pair \<open>BASE/QUOTE\<close> whose quote is USDT or USDC and whose base is
  non-empty, has no separator character ('/', '-', '_'), consists of ASCII characters other
  than lower-case letters and does not contain the quote's name anywhere, every adapter maps
  the pair to its native symbol and back to the same pair.
\<close>

theorem symbol_round_trip:
  assumes "q \<in> set quote_currencies" and "base \<noteq> []" and "no_separator base"
    and "plain_upper base" and "\<not> contains_quote base q"
  shows "parseSymbol ex (formatSymbol ex (base @ ''/'' @ q)) = base @ ''/'' @ q"
proof -
  from assms(1) have q: "q = ''USDT'' \<or> q = ''USDC''"
    by (auto simp: quote_currencies_def)
  from assms(5) have ns: "\<not> sublist q base" by (simp add: contains_quote_def)
  from no_separator_set[OF assms(3)]
  have sl: "CHR ''/'' \<notin> set base" and hy: "CHR ''-'' \<notin> set base" and us: "CHR ''_'' \<notin> set base"
    by simp_all
  have cat: "concat_formatSymbol (base @ CHR ''/'' # q) = base @ q"
    using js_replace_char[OF sl, of "[]" q] by (simp add: concat_formatSymbol_def)
  have lowq: "plain_upper q" using q by (auto simp: plain_upper_def is_lower_def)
  have "plain_upper (base @ q)" using assms(4) lowq by (simp add: plain_upper_def)
  then have mexc: "mexc_formatSymbol (base @ CHR ''/'' # q) = base @ q"
    using js_replace_char[OF sl, of "[]" q] by (simp add: mexc_formatSymbol_def toUpperCase_id)
  have hyf: "hyphen_formatSymbol (base @ CHR ''/'' # q) = base @ CHR ''-'' # q"
    using js_replace_char[OF sl, of "''-''" q] by (simp add: hyphen_formatSymbol_def)
  have hyp: "hyphen_parseSymbol (base @ CHR ''-'' # q) = base @ CHR ''/'' # q"
    using js_replace_char[OF hy, of "''/''" q] by (simp add: hyphen_parseSymbol_def)
  have gf: "gateio_formatSymbol (base @ CHR ''/'' # q) = base @ CHR ''_'' # q"
    using js_replace_char[OF sl, of "''_''" q]
    by (simp add: gateio_formatSymbol_def apply_mapping_def gateio_symbolMapping_def)
  have gp: "gateio_parseSymbol (base @ CHR ''_'' # q) = base @ CHR ''/'' # q"
    using js_replace_char[OF us, of "''/''" q]
    by (simp add: gateio_parseSymbol_def apply_mapping_def gateio_reverseMapping_def)
  have cp: "concat_parseSymbol (base @ q) = base @ CHR ''/'' # q"
    using concat_parse_inverse[OF q ns] by simp
  show ?thesis
    by (cases ex) (simp_all add: cat mexc hyf hyp gf gp cp)
qed

theorem symbol_round_trip_witness:
  "''USDT'' \<in> set quote_currencies \<and> ''BTC'' \<noteq> [] \<and> no_separator ''BTC'' \<and>
   plain_upper ''BTC'' \<and> \<not> contains_quote ''BTC'' ''USDT'' \<and>
   parseSymbol MEXC (formatSymbol MEXC ''BTC/USDT'') = ''BTC/USDT''"
proof -
  have h1: "''USDT'' \<in> set quote_currencies" by (simp add: quote_currencies_def)
  have h2: "''BTC'' \<noteq> []" by simp
  have h3: "no_separator ''BTC''" by code_simp
  have h4: "plain_upper ''BTC''" by code_simp
  have h5: "\<not> contains_quote ''BTC'' ''USDT''" by code_simp
  from symbol_round_trip[OF h1 h2 h3 h4 h5, of MEXC] h1 h2 h3 h4 h5 show ?thesis by simp
qed

text \<open>
  C9 as stated fails twice. MEXC upper-cases, so a base with a lower-case letter
  does not come back; and the three concatenating adapters delete the first occurrence of
  the quote's name, so a base that contains it (without ending in it) loses it.
\<close>

theorem symbol_round_trip_counterexample:
  "''btc'' \<noteq> [] \<and> no_separator ''btc'' \<and> \<not> ends_in_quote ''btc'' \<and>
   parseSymbol MEXC (formatSymbol MEXC ''btc/USDT'') = ''BTC/USDT'' \<and>
   ''USDTX'' \<noteq> [] \<and> no_separator ''USDTX'' \<and> \<not> ends_in_quote ''USDTX'' \<and>
   parseSymbol Bybit (formatSymbol Bybit ''USDTX/USDT'') = ''XUSDT/USDT''"
  by code_simp

section \<open>Settings: the merge\<close>

text \<open>
  C10. \<open>updateSettings\<close> replaces each field that is present in the partial object by the
  partial's value and keeps each absent field as it was; \<open>getSettings\<close> right after it
  returns that merged record, and nothing else of the engine changes.
\<close>

theorem updateSettings_merges:
  "minProfitPercent (getSettings (updateSettings new e)) =
     (case new_minProfitPercent new of None \<Rightarrow> minProfitPercent (getSettings e) | Some v \<Rightarrow> v) \<and>
   enabledExchanges (getSettings (updateSettings new e)) =
     (case new_enabledExchanges new of None \<Rightarrow> enabledExchanges (getSettings e) | Some v \<Rightarrow> v) \<and>
   enabledPairs (getSettings (updateSettings new e)) =
     (case new_enabledPairs new of None \<Rightarrow> enabledPairs (getSettings e) | Some v \<Rightarrow> v) \<and>
   telegramEnabled (getSettings (updateSettings new e)) =
     (case new_telegramEnabled new of None \<Rightarrow> telegramEnabled (getSettings e) | Some v \<Rightarrow> v) \<and>
   soundEnabled (getSettings (updateSettings new e)) =
     (case new_soundEnabled new of None \<Rightarrow> soundEnabled (getSettings e) | Some v \<Rightarrow> v) \<and>
   tradeAmount (getSettings (updateSettings new e)) =
     (case new_tradeAmount new of None \<Rightarrow> tradeAmount (getSettings e) | Some v \<Rightarrow> v) \<and>
   tickers (updateSettings new e) = tickers e \<and>
   lastOpportunities (updateSettings new e) = lastOpportunities e \<and>
   analysisCount (updateSettings new e) = analysisCount e"
  by (simp add: updateSettings_def getSettings_def spread_settings_def or_else_def
      split: option.splits)
section \<open>Rounding keeps the sign\<close>

lemma pow2_powi: "pow2 k = 2 powi k"
  by (simp add: pow2_def power_int_def inverse_eq_divide power_one_over)

lemma pow2_pos: "0 < pow2 k"
  by (simp add: pow2_powi)

lemma binexp_le:
  assumes "0 < x" shows "pow2 (binexp x) \<le> x"
proof (cases "1 \<le> x")
  case True
  let ?n = "\<lfloor>x\<rfloor>"
  from True have n: "0 < ?n" by simp
  from bitlen_bounds[OF n] have b: "2 ^ nat (bitlen ?n - 1) \<le> ?n" by simp
  have k: "0 \<le> bitlen ?n - 1" using n by (simp add: bitlen_alt_def)
  have "(of_int (2 ^ nat (bitlen ?n - 1)) :: rat) \<le> of_int ?n" using b by (simp only: of_int_le_iff)
  also have "\<dots> \<le> x" by simp
  finally show ?thesis using True k by (simp add: binexp_def pow2_def)
next
  case False
  let ?y = "1 / x"
  let ?n = "\<lfloor>?y\<rfloor>"
  let ?k = "bitlen ?n - 1"
  from False assms have y: "1 < ?y" by simp
  then have n: "0 < ?n" by simp
  have k: "0 \<le> ?k" using n by (simp add: bitlen_alt_def)
  show ?thesis
  proof (cases "?y = 2 ^ nat ?k")
    case True
    then have "x = 1 / 2 ^ nat ?k" using assms by (simp add: field_simps)
    moreover have "pow2 (- ?k) = 1 / 2 ^ nat ?k" using k by (cases "?k = 0") (simp_all add: pow2_def)
    ultimately show ?thesis using False True by (simp add: binexp_def Let_def)
  next
    case ne: False
    from bitlen_bounds[OF n] have "?n < 2 ^ nat (bitlen ?n)" by simp
    then have "?n + 1 \<le> 2 ^ nat (bitlen ?n)" by simp
    then have "(of_int (?n + 1) :: rat) \<le> of_int (2 ^ nat (bitlen ?n))" by (simp only: of_int_le_iff)
    moreover have "?y < of_int (?n + 1)" by linarith
    ultimately have "?y \<le> 2 ^ nat (bitlen ?n)" by simp
    then have yle: "?y \<le> 2 ^ nat (?k + 1)" by simp
    have "1 \<le> 2 ^ nat (?k + 1) * x"
      using yle assms by (simp only: pos_divide_le_eq)
    then have "1 / 2 ^ nat (?k + 1) \<le> x"
      by (simp add: pos_divide_le_eq mult.commute)
    moreover have "pow2 (- ?k - 1) = 1 / 2 ^ nat (?k + 1)" using k by (simp add: pow2_def)
    ultimately show ?thesis using False ne by (simp add: binexp_def Let_def)
  qed
qed

lemma round_half_even_ge1: "1 \<le> x \<Longrightarrow> 1 \<le> round_half_even x"
proof -
  assume "1 \<le> x"
  then have "1 \<le> \<lfloor>x\<rfloor>" by simp
  then show ?thesis by (simp add: round_half_even_def Let_def)
qed

lemma round64_pos: assumes "0 < x" shows "0 < round64 x"
proof -
  let ?e = "binexp x"
  have "pow2 ?e * pow2 (52 - ?e) = pow2 52"
    by (simp add: pow2_powi flip: power_int_add)
  moreover have "(1::rat) \<le> pow2 52" by (simp add: pow2_def)
  ultimately have "1 \<le> pow2 ?e * pow2 (52 - ?e)" by simp
  also have "\<dots> \<le> x * pow2 (52 - ?e)"
    using binexp_le[OF assms] pow2_pos[of "52 - ?e"] by (simp add: mult_right_mono)
  finally have "1 \<le> round_half_even (x * pow2 (52 - ?e))" by (rule round_half_even_ge1)
  then have "0 < (of_int (round_half_even (x * pow2 (52 - ?e))) :: rat)" by simp
  then show ?thesis using assms pow2_pos[of "?e - 52"]
    by (simp add: round64_def Let_def)
qed

lemma round64_minus: "round64 (- x) = - round64 x"
  by (simp add: round64_def Let_def sgn_minus)

lemma round64_pos_iff: "0 < round64 x \<longleftrightarrow> 0 < x"
proof (cases "0 < x")
  case True then show ?thesis by (simp add: round64_pos)
next
  case False
  then have "x = 0 \<or> 0 < - x" by auto
  then have "round64 x \<le> 0"
  proof
    assume "x = 0" then show ?thesis by (simp add: round64_def)
  next
    assume "0 < - x"
    from round64_pos[OF this] show ?thesis by (simp add: round64_minus)
  qed
  with False show ?thesis by simp
qed

lemma by_price_pos:
  "js_gt (by_price a b) (Num 0) \<longleftrightarrow> (\<exists>x y. price a = Num x \<and> price b = Num y \<and> y < x)"
  by (cases "price a"; cases "price b") (simp_all add: by_price_def js_gt_def round64_pos_iff)

lemma js_insert_insort:
  "\<forall>y\<in>set (x # ys). price y \<noteq> NaN \<Longrightarrow>
     js_insert by_price x ys = insort_key (\<lambda>v. the_num (price v)) x ys"
proof (induction ys)
  case Nil then show ?case by simp
next
  case (Cons y ys)
  then obtain a b where "price x = Num a" "price y = Num b"
    by (cases "price x"; cases "price y") auto
  with Cons show ?case by (auto simp: by_price_pos)
qed

lemma js_sort_sort_key:
  "\<forall>y\<in>set xs. price y \<noteq> NaN \<Longrightarrow> js_sort by_price xs = sort_key (\<lambda>v. the_num (price v)) xs"
proof (induction xs)
  case Nil then show ?case by simp
next
  case (Cons x xs)
  then have "js_sort by_price xs = sort_key (\<lambda>v. the_num (price v)) xs" by simp
  moreover have "\<forall>y\<in>set (x # sort_key (\<lambda>v. the_num (price v)) xs). price y \<noteq> NaN"
    using Cons.prems by simp
  ultimately show ?case by (simp add: js_insert_insort)
qed

section \<open>What one pass selects\<close>

lemma price_entry_eq:
  "price_entry e p ex = (if usable e p ex then [\<lparr> venue = ex, price = cachedAsk e p ex \<rparr>] else [])"
  by (simp add: price_entry_def usable_def cachedAsk_def split: option.splits)

lemma collectPrices_eq:
  "collectPrices e p =
     map (\<lambda>ex. \<lparr> venue = ex, price = cachedAsk e p ex \<rparr>) (usableExchanges e p)"
proof -
  have "concat (map (price_entry e p) xs) =
        map (\<lambda>ex. \<lparr> venue = ex, price = cachedAsk e p ex \<rparr>) (filter (usable e p) xs)" for xs
    by (induction xs) (simp_all add: price_entry_eq)
  then show ?thesis by (simp add: collectPrices_def usableExchanges_def)
qed

lemma usable_ask_num: "usable e p ex \<Longrightarrow> \<exists>q. cachedAsk e p ex = Num q \<and> 0 < q"
  by (cases "cachedAsk e p ex")
     (auto simp: usable_def cachedAsk_def js_gt_def split: option.splits)

lemma usable_bid_truthy: "usable e p ex \<Longrightarrow> num_truthy (cachedBid e p ex)"
  by (cases "cachedBid e p ex")
     (auto simp: usable_def cachedBid_def js_gt_def split: option.splits)

lemma collectPrices_num: "v \<in> set (collectPrices e p) \<Longrightarrow> price v \<noteq> NaN"
  using usable_ask_num by (fastforce simp: collectPrices_eq usableExchanges_def)

lemma sortedPrices_sort_key:
  "sortedPrices e p = sort_key (\<lambda>v. the_num (price v)) (collectPrices e p)"
  unfolding sortedPrices_def by (rule js_sort_sort_key) (simp add: collectPrices_num)

lemma sorted_map_last: "sorted (map f xs) \<Longrightarrow> y \<in> set xs \<Longrightarrow> f y \<le> f (List.last xs)"
  by (induction xs) (auto split: if_splits)

lemma sorted_map_hd: "sorted (map f xs) \<Longrightarrow> y \<in> set xs \<Longrightarrow> f (hd xs) \<le> f y"
  by (cases xs) auto

lemma set_sortedPrices: "set (sortedPrices e p) = set (collectPrices e p)"
  by (simp add: sortedPrices_sort_key)

lemma sortedPrices_nonempty: "collectPrices e p \<noteq> [] \<Longrightarrow> sortedPrices e p \<noteq> []"
  using set_sortedPrices[of e p] by (metis set_empty)

lemma in_collectPrices:
  "v \<in> set (collectPrices e p) \<longleftrightarrow>
     (\<exists>ex\<in>set (usableExchanges e p). v = \<lparr> venue = ex, price = cachedAsk e p ex \<rparr>)"
  by (auto simp: collectPrices_eq)

lemma js_le_the_num:
  "a \<noteq> NaN \<Longrightarrow> b \<noteq> NaN \<Longrightarrow> js_le a b \<longleftrightarrow> the_num a \<le> the_num b"
  by (cases a; cases b) simp_all

lemma bestBuy_props:
  assumes ne: "collectPrices e p \<noteq> []"
  shows "venue (bestBuyOf e p) \<in> set (usableExchanges e p)"
    and "price (bestBuyOf e p) = cachedAsk e p (venue (bestBuyOf e p))"
    and "min_ask_among e p (price (bestBuyOf e p))"
proof -
  let ?f = "\<lambda>v. the_num (price v)"
  have mem: "bestBuyOf e p \<in> set (collectPrices e p)"
    using sortedPrices_nonempty[OF ne] set_sortedPrices[of e p]
    unfolding bestBuyOf_def by (metis hd_in_set)
  then obtain ex where ex: "ex \<in> set (usableExchanges e p)"
      "bestBuyOf e p = \<lparr> venue = ex, price = cachedAsk e p ex \<rparr>"
    by (auto simp: in_collectPrices)
  then show v: "venue (bestBuyOf e p) \<in> set (usableExchanges e p)"
    and pr: "price (bestBuyOf e p) = cachedAsk e p (venue (bestBuyOf e p))" by simp_all
  have srt: "sorted (map ?f (sortedPrices e p))"
    by (simp add: sortedPrices_sort_key)
  have "js_le (price (bestBuyOf e p)) (cachedAsk e p x)" if x: "x \<in> set (usableExchanges e p)" for x
  proof -
    have "\<lparr> venue = x, price = cachedAsk e p x \<rparr> \<in> set (sortedPrices e p)"
      using x by (auto simp: set_sortedPrices in_collectPrices)
    from sorted_map_hd[OF srt this]
    have "the_num (price (bestBuyOf e p)) \<le> the_num (cachedAsk e p x)"
      by (simp add: bestBuyOf_def)
    moreover have "price (bestBuyOf e p) \<noteq> NaN" using mem by (rule collectPrices_num)
    moreover have "cachedAsk e p x \<noteq> NaN"
      using usable_ask_num[of e p x] x by (auto simp: usableExchanges_def)
    ultimately show ?thesis by (simp add: js_le_the_num)
  qed
  with v pr show "min_ask_among e p (price (bestBuyOf e p))"
    by (auto simp: min_ask_among_def list_ex_iff list_all_iff)
qed

lemma bestSell_props:
  assumes ne: "collectPrices e p \<noteq> []"
  shows "venue (bestSellOf e p) \<in> set (usableExchanges e p)"
    and "price (bestSellOf e p) = cachedAsk e p (venue (bestSellOf e p))"
    and "max_ask_among e p (cachedAsk e p (venue (bestSellOf e p)))"
    and "sellPriceOf e p = cachedBid e p (venue (bestSellOf e p))"
proof -
  let ?f = "\<lambda>v. the_num (price v)"
  have mem: "bestSellOf e p \<in> set (collectPrices e p)"
    using sortedPrices_nonempty[OF ne] set_sortedPrices[of e p]
    unfolding bestSellOf_def by (metis last_in_set)
  then obtain ex where ex: "ex \<in> set (usableExchanges e p)"
      "bestSellOf e p = \<lparr> venue = ex, price = cachedAsk e p ex \<rparr>"
    by (auto simp: in_collectPrices)
  then show v: "venue (bestSellOf e p) \<in> set (usableExchanges e p)"
    and pr: "price (bestSellOf e p) = cachedAsk e p (venue (bestSellOf e p))" by simp_all
  have srt: "sorted (map ?f (sortedPrices e p))"
    by (simp add: sortedPrices_sort_key)
  have "js_le (cachedAsk e p x) (price (bestSellOf e p))" if x: "x \<in> set (usableExchanges e p)" for x
  proof -
    have "\<lparr> venue = x, price = cachedAsk e p x \<rparr> \<in> set (sortedPrices e p)"
      using x by (auto simp: set_sortedPrices in_collectPrices)
    from sorted_map_last[OF srt this]
    have "the_num (cachedAsk e p x) \<le> the_num (price (bestSellOf e p))"
      by (simp add: bestSellOf_def)
    moreover have "price (bestSellOf e p) \<noteq> NaN" using mem by (rule collectPrices_num)
    moreover have "cachedAsk e p x \<noteq> NaN"
      using usable_ask_num[of e p x] x by (auto simp: usableExchanges_def)
    ultimately show ?thesis by (simp add: js_le_the_num)
  qed
  with v pr show "max_ask_among e p (cachedAsk e p (venue (bestSellOf e p)))"
    by (auto simp: max_ask_among_def list_ex_iff list_all_iff)
  from v have "usable e p (venue (bestSellOf e p))" by (simp add: usableExchanges_def)
  from usable_bid_truthy[OF this] this
  show "sellPriceOf e p = cachedBid e p (venue (bestSellOf e p))"
    by (auto simp: sellPriceOf_def cachedBid_def usable_def num_or_def split: option.splits)
qed



section \<open>The events of one pass\<close>

lemma analyzePair_events:
  "snd (analyzePair fee env p e) =
     (if length (collectPrices e p) < 2 then []
      else (if js_ge (spreadOf e p) (Num (round64 (3 / 10)))
            then [Analysis (analysisResultOf env e p)] else []) @
           (if qualifies fee e p \<and> cooled env e p
            then [Opportunity (opportunityOf fee env e p)] else []))"
  by (auto simp: analyzePair_def Let_def qualifies_def cooled_def)

lemma emitted_eq:
  "emitted fee env p e =
     (if qualifies fee e p \<and> cooled env e p then [opportunityOf fee env e p] else [])"
  by (auto simp: emitted_def analyzePair_events qualifies_def)

lemma after_pass_last:
  "lastOpportunities (after_pass fee env p e) =
     (if qualifies fee e p \<and> cooled env e p
      then (lastOpportunities e)(opportunityKey e p \<mapsto> now_record env)
      else lastOpportunities e)"
  by (auto simp: after_pass_def analyzePair_def Let_def qualifies_def cooled_def)

lemma after_pass_frame:
  "tickers (after_pass fee env p e) = tickers e"
  "settings (after_pass fee env p e) = settings e"
  by (auto simp: after_pass_def analyzePair_def Let_def)

lemma reports_selection_all:
  "list_all (reports_selection e p) (snd (analyzePair fee env p e))"
  by (simp add: analyzePair_events reports_selection_def analysisResultOf_def
      opportunityOf_def Let_def)

lemma same_market:
  assumes "tickers e' = tickers e" "settings e' = settings e"
  shows "collectPrices e' p = collectPrices e p"
    and "bestBuyOf e' p = bestBuyOf e p"
    and "bestSellOf e' p = bestSellOf e p"
    and "profitPercentOf fee e' p = profitPercentOf fee e p"
    and "opportunityKey e' p = opportunityKey e p"
    and "qualifies fee e' p = qualifies fee e p"
proof -
  have pe: "price_entry e' p = price_entry e p"
    using assms by (auto simp: price_entry_def fun_eq_iff)
  then show c: "collectPrices e' p = collectPrices e p"
    using assms by (simp add: collectPrices_def)
  then have s: "sortedPrices e' p = sortedPrices e p" by (simp add: sortedPrices_def)
  then show b: "bestBuyOf e' p = bestBuyOf e p" and l: "bestSellOf e' p = bestSellOf e p"
    by (simp_all add: bestBuyOf_def bestSellOf_def)
  have sp: "sellPriceOf e' p = sellPriceOf e p" using assms l by (simp add: sellPriceOf_def cong: option.case_cong)
  then have "spreadOf e' p = spreadOf e p" using b by (simp add: spreadOf_def)
  then show pr: "profitPercentOf fee e' p = profitPercentOf fee e p"
    using b l by (simp add: profitPercentOf_def)
  show "opportunityKey e' p = opportunityKey e p" using b l by (simp add: opportunityKey_def)
  show "qualifies fee e' p = qualifies fee e p" using c pr assms by (simp add: qualifies_def)
qed

lemma sellPriceOf_cong:
  assumes "tickers e' = tickers e" "settings e' = settings e"
  shows "sellPriceOf e' p = sellPriceOf e p"
  using assms same_market(3)[OF assms, of p] by (simp add: sellPriceOf_def cong: option.case_cong)

lemma reports_selection_cong:
  assumes "tickers e' = tickers e" "settings e' = settings e"
  shows "reports_selection e' p ev = reports_selection e p ev"
  using same_market(2,3)[OF assms, of p] sellPriceOf_cong[OF assms, of p]
  by (simp add: reports_selection_def split: engine_event.splits)

lemma analyzePairs_reports:
  "tickers e' = tickers e \<Longrightarrow> settings e' = settings e \<Longrightarrow>
     list_all (\<lambda>ev. list_ex (\<lambda>q. reports_selection e q ev) ps)
       (snd (analyzePairs fee envs i ps e'))"
proof (induction ps arbitrary: i e')
  case Nil
  then show ?case by simp
next
  case (Cons p ps)
  let ?r1 = "analyzePair fee (envs i) p e'"
  let ?e1 = "fst ?r1"
  have f: "tickers ?e1 = tickers e" "settings ?e1 = settings e"
    using after_pass_frame[of fee "envs i" p e'] Cons.prems by (simp_all add: after_pass_def)
  have h1: "list_all (\<lambda>ev. list_ex (\<lambda>q. reports_selection e q ev) (p # ps)) (snd ?r1)"
    using reports_selection_all[of e' p fee "envs i"]
      reports_selection_cong[OF Cons.prems, of p]
    by (auto simp: list_all_iff)
  have "list_all (\<lambda>ev. list_ex (\<lambda>q. reports_selection e q ev) ps)
       (snd (analyzePairs fee envs (Suc i) ps ?e1))"
    by (rule Cons.IH[OF f])
  then have h2: "list_all (\<lambda>ev. list_ex (\<lambda>q. reports_selection e q ev) (p # ps))
       (snd (analyzePairs fee envs (Suc i) ps ?e1))"
    by (auto simp: list_all_iff)
  from h1 h2 show ?case
    by (simp add: Let_def split_beta)
qed

lemma scan_reports:
  "list_all (\<lambda>ev. list_ex (\<lambda>q. reports_selection e q ev) (enabledPairs (settings e)))
     (snd (analyzeAllPairs fee envs e))"
  unfolding analyzeAllPairs_def by (rule analyzePairs_reports) simp_all

text \<open>
  C1 (as amended). For a pair for which at least two enabled exchanges have a cached ticker
  with ask > 0 and bid > 0, one pass of \<open>analyzePair\<close> takes as buy price the smallest ask
  among those exchanges; it sells on the exchange among them whose ask is the largest, and
  takes as sell price the bid cached for that exchange. Every event the pass emits carries
  this choice, and every event of a whole scan carries the choice for one of the enabled
  pairs.
\<close>

theorem analyzePair_selects:
  assumes "2 \<le> length (remdups (usableExchanges e p))"
  shows "min_ask_among e p (price (bestBuyOf e p)) \<and>
         max_ask_among e p (cachedAsk e p (venue (bestSellOf e p))) \<and>
         venue (bestSellOf e p) \<in> set (usableExchanges e p) \<and>
         sellPriceOf e p = cachedBid e p (venue (bestSellOf e p)) \<and>
         list_all (reports_selection e p) (snd (analyzePair takerFee env p e)) \<and>
         list_all (\<lambda>ev. list_ex (\<lambda>q. reports_selection e q ev) (enabledPairs (settings e)))
           (snd (analyzeAllPairs takerFee envs e))"
proof -
  have "length (remdups (usableExchanges e p)) \<le> length (usableExchanges e p)"
    by (rule length_remdups_leq)
  with assms have "collectPrices e p \<noteq> []" by (auto simp: collectPrices_eq)
  from bestBuy_props(3)[OF this] bestSell_props[OF this] reports_selection_all scan_reports
  show ?thesis by simp
qed

lemma engine_A_usable: "usableExchanges engine_A ''BTC/USDT'' = [Bybit, OKX, Bitget]"
  by code_simp

lemma engine_A_sorted:
  "sortedPrices engine_A ''BTC/USDT'' =
     [\<lparr>venue = Bybit, price = Num 100\<rparr>, \<lparr>venue = Bitget, price = Num (831 / 8)\<rparr>,
      \<lparr>venue = OKX, price = Num 104\<rparr>]"
  by code_simp

lemma engine_A_buy: "bestBuyOf engine_A ''BTC/USDT'' = \<lparr>venue = Bybit, price = Num 100\<rparr>"
  by (simp add: bestBuyOf_def engine_A_sorted)

lemma engine_A_sell: "bestSellOf engine_A ''BTC/USDT'' = \<lparr>venue = OKX, price = Num 104\<rparr>"
  by (simp add: bestSellOf_def engine_A_sorted)

lemma engine_A_asks:
  "cachedAsk engine_A ''BTC/USDT'' Bybit = Num 100"
  "cachedAsk engine_A ''BTC/USDT'' OKX = Num 104"
  "cachedAsk engine_A ''BTC/USDT'' Bitget = Num (831 / 8)"
  by code_simp+

lemma engine_A_bids:
  "cachedBid engine_A ''BTC/USDT'' Bybit = Num (199 / 2)"
  "cachedBid engine_A ''BTC/USDT'' OKX = Num (207 / 2)"
  "cachedBid engine_A ''BTC/USDT'' Bitget = Num (415 / 4)"
  by code_simp+

text \<open>The theorem on three exchanges: buy at 100, sell on OKX (ask 104) at its bid 103.5.\<close>

theorem analyzePair_selects_witness:
  "2 \<le> length (remdups (usableExchanges engine_A ''BTC/USDT'')) \<and>
   min_ask_among engine_A ''BTC/USDT'' (Num 100) \<and>
   max_ask_among engine_A ''BTC/USDT'' (Num 104) \<and>
   OKX \<in> set (usableExchanges engine_A ''BTC/USDT'') \<and>
   sellPriceOf engine_A ''BTC/USDT'' = Num (207 / 2)"
proof -
  have h: "2 \<le> length (remdups (usableExchanges engine_A ''BTC/USDT''))"
    by (simp add: engine_A_usable)
  from analyzePair_selects[OF h, of config_takerFee "scan_at 0" "\<lambda>i. scan_at 0"] h
  show ?thesis by (simp add: engine_A_buy engine_A_sell engine_A_asks engine_A_bids)
qed

lemma engine_A_sellPrice: "sellPriceOf engine_A ''BTC/USDT'' = Num (207 / 2)"
  by (simp add: sellPriceOf_def engine_A_sell) code_simp



lemma engine_A_profit:
  "profitPercentOf config_takerFee engine_A ''BTC/USDT'' =
     Num (7430939385161319 / 2251799813685248)"
  by (simp add: profitPercentOf_def spreadOf_def engine_A_sellPrice engine_A_buy engine_A_sell)
     code_simp

lemma engine_A_prices: "length (collectPrices engine_A ''BTC/USDT'') = 3"
  by (simp add: collectPrices_eq engine_A_usable)

lemma engine_A_qualifies: "qualifies config_takerFee engine_A ''BTC/USDT''"
  by (simp add: qualifies_def engine_A_prices engine_A_profit) code_simp

lemma engine_A_cooled: "cooled (scan_at 1700000000000) engine_A ''BTC/USDT''"
  by code_simp

text \<open>
  C1 as stated fails on the sell side: the sell price need not be the largest bid. With asks 100, 104 and 103.875 and bids 99.5, 103.5
  and 103.75 on Bybit, OKX and Bitget, the pass sells on OKX, whose ask is the highest, at
  OKX's bid 103.5, and reports that price in the opportunity it emits; the highest bid is
  Bitget's 103.75.
\<close>

theorem analyzePair_sell_price_counterexample:
  "2 \<le> length (remdups (usableExchanges engine_A ''BTC/USDT'')) \<and>
   map sellExchange (emitted config_takerFee (scan_at 1700000000000) ''BTC/USDT'' engine_A) = [OKX] \<and>
   map sellPrice (emitted config_takerFee (scan_at 1700000000000) ''BTC/USDT'' engine_A)
     = [Num (207 / 2)] \<and>
   sellPriceOf engine_A ''BTC/USDT'' = Num (207 / 2) \<and>
   Bitget \<in> set (usableExchanges engine_A ''BTC/USDT'') \<and>
   cachedBid engine_A ''BTC/USDT'' Bitget = Num (415 / 4) \<and>
   \<not> max_bid_among engine_A ''BTC/USDT'' (sellPriceOf engine_A ''BTC/USDT'')"
proof -
  have "toFixed_parsed 12 (Num (207 / 2)) = Num (207 / 2)" by code_simp
  then show ?thesis
    by (simp add: emitted_eq engine_A_qualifies engine_A_cooled opportunityOf_def Let_def
        engine_A_sell engine_A_sellPrice engine_A_usable engine_A_bids max_bid_among_def)
qed

section \<open>Spread and profit\<close>





lemma engine_B_sorted:
  "sortedPrices engine_B ''BTC/USDT'' =
     [\<lparr>venue = Bybit, price = Num 100\<rparr>, \<lparr>venue = OKX, price = Num (205 / 2)\<rparr>]"
  by code_simp

lemma engine_B_buy: "bestBuyOf engine_B ''BTC/USDT'' = \<lparr>venue = Bybit, price = Num 100\<rparr>"
  by (simp add: bestBuyOf_def engine_B_sorted)

lemma engine_B_sell: "bestSellOf engine_B ''BTC/USDT'' = \<lparr>venue = OKX, price = Num (205 / 2)\<rparr>"
  by (simp add: bestSellOf_def engine_B_sorted)

lemma engine_B_sellPrice: "sellPriceOf engine_B ''BTC/USDT'' = Num 102"
  by (simp add: sellPriceOf_def engine_B_sell) code_simp


section \<open>Threshold and cooldown\<close>

lemma exchange_name_no_dash: "CHR ''-'' \<notin> set (exchange_name ex)"
  by (cases ex) simp_all

lemma exchange_name_inj: "exchange_name a = exchange_name b \<Longrightarrow> a = b"
  by (cases a; cases b) simp_all

lemma split_at_first:
  "c \<notin> set a \<Longrightarrow> c \<notin> set a' \<Longrightarrow> a @ c # r = a' @ c # r' \<Longrightarrow> a = a' \<and> r = r'"
proof (induction a arbitrary: a')
  case Nil then show ?case by (cases a') auto
next
  case (Cons x xs) then show ?case by (cases a') auto
qed

lemma key_injective:
  assumes "p @ ''-'' @ exchange_name a @ ''-'' @ exchange_name b =
           p' @ ''-'' @ exchange_name a' @ ''-'' @ exchange_name b'"
  shows "p = p' \<and> a = a' \<and> b = b'"
proof -
  from assms have "rev (p @ ''-'' @ exchange_name a @ ''-'' @ exchange_name b) =
      rev (p' @ ''-'' @ exchange_name a' @ ''-'' @ exchange_name b')" by simp
  then have r: "rev (exchange_name b) @ CHR ''-'' # (rev (exchange_name a) @ CHR ''-'' # rev p) =
      rev (exchange_name b') @ CHR ''-'' # (rev (exchange_name a') @ CHR ''-'' # rev p')"
    by simp
  have nd: "CHR ''-'' \<notin> set (rev (exchange_name x))" for x
    using exchange_name_no_dash[of x] by simp
  from split_at_first[OF nd nd r]
  have b: "rev (exchange_name b) = rev (exchange_name b')"
    and r2: "rev (exchange_name a) @ CHR ''-'' # rev p = rev (exchange_name a') @ CHR ''-'' # rev p'"
    by simp_all
  from split_at_first[OF nd nd r2]
  have a: "rev (exchange_name a) = rev (exchange_name a')" and p: "rev p = rev p'" by simp_all
  from a b p show ?thesis by (simp add: exchange_name_inj)
qed

lemma lastTimeOf_some: "lastOpportunities e k = Some t \<Longrightarrow> lastTimeOf e k = t"
  by (simp add: lastTimeOf_def)

lemma js_ge_refl: "x \<noteq> NaN \<Longrightarrow> js_ge x x"
  by (cases x) (simp_all add: js_ge_def)

text \<open>
  C2. A pass over a pair emits an opportunity exactly when the pair is analysed with a profit
  of at least \<open>minProfitPercent\<close> and the time recorded for its key is at least 30 seconds
  before the pass's clock reading (a key with no record counts as recorded at time 0). The
  threshold is inclusive. An emitting pass emits one opportunity and records its own time
  under the key; a pass that emits nothing leaves all recorded times as they were. The key
  string determines the pair, the buy exchange and the sell exchange. Hence, of three
  qualifying passes with one key, the second less than 30 seconds after the time the first
  recorded and the third at least 31 seconds after it, the first and the third emit one
  opportunity each and the second emits none.
\<close>

theorem opportunity_gate:
  "(emitted takerFee env p e \<noteq> []) = (qualifies takerFee e p \<and> cooled env e p) \<and>
   (emitted takerFee env p e \<noteq> [] \<longrightarrow>
      emitted takerFee env p e = [opportunityOf takerFee env e p] \<and>
      lastOpportunities (after_pass takerFee env p e) =
        (lastOpportunities e)(opportunityKey e p \<mapsto> now_record env)) \<and>
   (emitted takerFee env p e = [] \<longrightarrow>
      lastOpportunities (after_pass takerFee env p e) = lastOpportunities e) \<and>
   (2 \<le> length (collectPrices e p) \<and> minProfitPercent (settings e) \<noteq> NaN \<and>
    profitPercentOf takerFee e p = minProfitPercent (settings e) \<and> cooled env e p \<longrightarrow>
      emitted takerFee env p e \<noteq> []) \<and>
   (opportunityKey e p = opportunityKey e' p' \<longrightarrow>
      p = p' \<and> venue (bestBuyOf e p) = venue (bestBuyOf e' p') \<and>
      venue (bestSellOf e p) = venue (bestSellOf e' p')) \<and>
   (qualifies takerFee e p \<and> cooled env e p \<and>
    qualifies takerFee e2 p \<and> opportunityKey e2 p = opportunityKey e p \<and>
    lastOpportunities e2 (opportunityKey e p) =
      lastOpportunities (after_pass takerFee env p e) (opportunityKey e p) \<and>
    now_check env2 - now_record env < 30000 \<and>
    qualifies takerFee e3 p \<and> opportunityKey e3 p = opportunityKey e p \<and>
    lastOpportunities e3 (opportunityKey e p) =
      lastOpportunities (after_pass takerFee env2 p e2) (opportunityKey e p) \<and>
    now_record env + 31000 \<le> now_check env3 \<longrightarrow>
      length (emitted takerFee env p e) = 1 \<and>
      emitted takerFee env2 p e2 = [] \<and>
      length (emitted takerFee env3 p e3) = 1)"
proof -
  have g1: "(emitted takerFee env p e \<noteq> []) = (qualifies takerFee e p \<and> cooled env e p)"
    by (simp add: emitted_eq)
  have g2: "emitted takerFee env p e \<noteq> [] \<longrightarrow>
      emitted takerFee env p e = [opportunityOf takerFee env e p] \<and>
      lastOpportunities (after_pass takerFee env p e) =
        (lastOpportunities e)(opportunityKey e p \<mapsto> now_record env)"
    by (simp add: emitted_eq after_pass_last)
  have g3: "emitted takerFee env p e = [] \<longrightarrow>
      lastOpportunities (after_pass takerFee env p e) = lastOpportunities e"
    by (simp add: emitted_eq after_pass_last)
  have g4: "2 \<le> length (collectPrices e p) \<and> minProfitPercent (settings e) \<noteq> NaN \<and>
    profitPercentOf takerFee e p = minProfitPercent (settings e) \<and> cooled env e p \<longrightarrow>
      emitted takerFee env p e \<noteq> []"
    by (simp add: emitted_eq qualifies_def js_ge_refl)
  have g5: "opportunityKey e p = opportunityKey e' p' \<longrightarrow>
      p = p' \<and> venue (bestBuyOf e p) = venue (bestBuyOf e' p') \<and>
      venue (bestSellOf e p) = venue (bestSellOf e' p')"
    unfolding opportunityKey_def using key_injective by blast
  have g6: "length (emitted takerFee env p e) = 1 \<and>
      emitted takerFee env2 p e2 = [] \<and>
      length (emitted takerFee env3 p e3) = 1"
    if q1: "qualifies takerFee e p" and c1: "cooled env e p"
      and q2: "qualifies takerFee e2 p" and k2: "opportunityKey e2 p = opportunityKey e p"
      and l2: "lastOpportunities e2 (opportunityKey e p) =
        lastOpportunities (after_pass takerFee env p e) (opportunityKey e p)"
      and t2: "now_check env2 - now_record env < 30000"
      and q3: "qualifies takerFee e3 p" and k3: "opportunityKey e3 p = opportunityKey e p"
      and l3: "lastOpportunities e3 (opportunityKey e p) =
        lastOpportunities (after_pass takerFee env2 p e2) (opportunityKey e p)"
      and t3: "now_record env + 31000 \<le> now_check env3"
  proof -
    let ?k = "opportunityKey e p"
    from q1 c1 have first: "length (emitted takerFee env p e) = 1" by (simp add: emitted_eq)
    from q1 c1 l2 have "lastOpportunities e2 ?k = Some (now_record env)"
      by (simp add: after_pass_last)
    then have lt2: "lastTimeOf e2 ?k = now_record env" by (rule lastTimeOf_some)
    with t2 k2 have nc2: "\<not> cooled env2 e2 p" by (simp add: cooled_def COOLDOWN_MS_def)
    then have second: "emitted takerFee env2 p e2 = []" by (simp add: emitted_eq)
    from nc2 l3 have "lastOpportunities e3 ?k = lastOpportunities e2 ?k"
      by (simp add: after_pass_last)
    with \<open>lastOpportunities e2 ?k = Some (now_record env)\<close>
    have "lastTimeOf e3 ?k = now_record env" by (simp add: lastTimeOf_some)
    with t3 k3 have "cooled env3 e3 p" by (simp add: cooled_def COOLDOWN_MS_def)
    with q3 have third: "length (emitted takerFee env3 p e3) = 1" by (simp add: emitted_eq)
    from first second third show ?thesis by simp
  qed
  from g1 g2 g3 g4 g5 g6 show ?thesis by blast
qed


lemma engine_B_profit:
  "profitPercentOf config_takerFee engine_B ''BTC/USDT'' =
     Num (8106479329266893 / 4503599627370496)"
  by (simp add: profitPercentOf_def spreadOf_def engine_B_sellPrice engine_B_buy engine_B_sell)
     code_simp

lemma engine_B_prices: "length (collectPrices engine_B ''BTC/USDT'') = 2"
  by code_simp

lemma engine_B_qualifies: "qualifies config_takerFee engine_B ''BTC/USDT''"
  by (simp add: qualifies_def engine_B_prices engine_B_profit) code_simp

lemma engine_B_key: "opportunityKey engine_B ''BTC/USDT'' = ''BTC/USDT-bybit-okx''"
  by (simp add: opportunityKey_def engine_B_buy engine_B_sell)

lemma engine_B_cooled: "cooled (scan_at T0) engine_B ''BTC/USDT''"
  by (simp add: cooled_def engine_B_key) code_simp

lemma at_threshold_market:
  "tickers at_threshold = tickers engine_B"
  "enabledExchanges (settings at_threshold) = enabledExchanges (settings engine_B)"
  "minProfitPercent (settings at_threshold) = Num (8106479329266893 / 4503599627370496)"
  "lastOpportunities at_threshold = lastOpportunities engine_B"
  by (simp_all add: at_threshold_def updateSettings_def spread_settings_def or_else_def)

lemma at_threshold_qualifies:
  "2 \<le> length (collectPrices at_threshold ''BTC/USDT'')"
  "profitPercentOf config_takerFee at_threshold ''BTC/USDT'' =
     minProfitPercent (settings at_threshold)"
  "cooled (scan_at T0) at_threshold ''BTC/USDT''"
proof -
  have t: "tickers at_threshold = tickers engine_B" by (rule at_threshold_market)
  have x: "enabledExchanges (settings at_threshold) = enabledExchanges (settings engine_B)"
    by (rule at_threshold_market)
  have pe: "price_entry at_threshold ''BTC/USDT'' = price_entry engine_B ''BTC/USDT''"
    using t by (auto simp: price_entry_def fun_eq_iff)
  then have c: "collectPrices at_threshold ''BTC/USDT'' = collectPrices engine_B ''BTC/USDT''"
    using x by (simp add: collectPrices_def)
  then show "2 \<le> length (collectPrices at_threshold ''BTC/USDT'')"
    by (simp add: engine_B_prices)
  from c have s: "sortedPrices at_threshold ''BTC/USDT'' = sortedPrices engine_B ''BTC/USDT''"
    by (simp add: sortedPrices_def)
  then have b: "bestBuyOf at_threshold ''BTC/USDT'' = bestBuyOf engine_B ''BTC/USDT''"
    and l: "bestSellOf at_threshold ''BTC/USDT'' = bestSellOf engine_B ''BTC/USDT''"
    by (simp_all add: bestBuyOf_def bestSellOf_def)
  have sp: "sellPriceOf at_threshold ''BTC/USDT'' = sellPriceOf engine_B ''BTC/USDT''"
    using t l by (simp add: sellPriceOf_def cong: option.case_cong)
  then have "spreadOf at_threshold ''BTC/USDT'' = spreadOf engine_B ''BTC/USDT''"
    using b by (simp add: spreadOf_def)
  then have "profitPercentOf config_takerFee at_threshold ''BTC/USDT'' =
      profitPercentOf config_takerFee engine_B ''BTC/USDT''"
    using b l by (simp add: profitPercentOf_def)
  then show "profitPercentOf config_takerFee at_threshold ''BTC/USDT'' =
      minProfitPercent (settings at_threshold)"
    by (simp add: engine_B_profit at_threshold_market)
  have "opportunityKey at_threshold ''BTC/USDT'' = opportunityKey engine_B ''BTC/USDT''"
    using b l by (simp add: opportunityKey_def)
  moreover have "lastTimeOf at_threshold k = lastTimeOf engine_B k" for k
    by (simp add: lastTimeOf_def at_threshold_market)
  ultimately show "cooled (scan_at T0) at_threshold ''BTC/USDT''"
    using engine_B_cooled by (simp add: cooled_def)
qed

text \<open>
  The theorem on three passes over one market, at \<open>T0\<close>, 10 seconds later and 31 seconds
  later, and on an engine whose threshold equals the profit.
\<close>

theorem opportunity_gate_witness:
  "emitted config_takerFee (scan_at T0) ''BTC/USDT'' at_threshold \<noteq> [] \<and>
   emitted config_takerFee (scan_at T0) ''BTC/USDT'' engine_B =
     [opportunityOf config_takerFee (scan_at T0) engine_B ''BTC/USDT''] \<and>
   lastOpportunities pass1 = [''BTC/USDT-bybit-okx'' \<mapsto> T0] \<and>
   emitted config_takerFee (scan_at (T0 + 10000)) ''BTC/USDT'' pass1 = [] \<and>
   lastOpportunities pass2 = lastOpportunities pass1 \<and>
   length (emitted config_takerFee (scan_at (T0 + 31000)) ''BTC/USDT'' pass2) = 1"
proof -
  let ?p = "''BTC/USDT''"
  let ?fee = config_takerFee
  let ?k = "opportunityKey engine_B ?p"
  have m1: "tickers pass1 = tickers engine_B" "settings pass1 = settings engine_B"
    by (simp_all add: pass1_def after_pass_frame)
  have m2: "tickers pass2 = tickers engine_B" "settings pass2 = settings engine_B"
    by (simp_all add: pass2_def after_pass_frame m1)
  have q2: "qualifies ?fee pass1 ?p" using same_market(6)[OF m1] engine_B_qualifies by simp
  have k2: "opportunityKey pass1 ?p = ?k" using same_market(5)[OF m1] by simp
  have q3: "qualifies ?fee pass2 ?p" using same_market(6)[OF m2] engine_B_qualifies by simp
  have k3: "opportunityKey pass2 ?p = ?k" using same_market(5)[OF m2] by simp
  have l2: "lastOpportunities pass1 ?k =
      lastOpportunities (after_pass ?fee (scan_at T0) ?p engine_B) ?k"
    by (simp add: pass1_def)
  have l3: "lastOpportunities pass2 ?k =
      lastOpportunities (after_pass ?fee (scan_at (T0 + 10000)) ?p pass1) ?k"
    by (simp add: pass2_def)
  have t2: "now_check (scan_at (T0 + 10000)) - now_record (scan_at T0) < 30000"
    by (simp add: scan_at_def)
  have t3: "now_record (scan_at T0) + 31000 \<le> now_check (scan_at (T0 + 31000))"
    by (simp add: scan_at_def)
  note G = opportunity_gate[of ?fee "scan_at T0" ?p engine_B pass1 ?p pass1
      "scan_at (T0 + 10000)" pass2 "scan_at (T0 + 31000)"]
  from G engine_B_qualifies engine_B_cooled
  have ne: "emitted ?fee (scan_at T0) ?p engine_B \<noteq> []" by blast
  with G have a: "emitted ?fee (scan_at T0) ?p engine_B = [opportunityOf ?fee (scan_at T0) engine_B ?p]"
    and b0: "lastOpportunities (after_pass ?fee (scan_at T0) ?p engine_B) =
        (lastOpportunities engine_B)(?k \<mapsto> now_record (scan_at T0))"
    by blast+
  have "lastOpportunities engine_B = Map.empty"
    by (simp add: engine_B_def updateTicker_def initial_engine_def)
  with b0 have b: "lastOpportunities pass1 = [''BTC/USDT-bybit-okx'' \<mapsto> T0]"
    by (simp add: pass1_def engine_B_key scan_at_def)
  from G engine_B_qualifies engine_B_cooled q2 k2 l2 t2 q3 k3 l3 t3
  have sc: "length (emitted ?fee (scan_at T0) ?p engine_B) = 1 \<and>
      emitted ?fee (scan_at (T0 + 10000)) ?p pass1 = [] \<and>
      length (emitted ?fee (scan_at (T0 + 31000)) ?p pass2) = 1"
    by blast
  note G2 = opportunity_gate[of ?fee "scan_at (T0 + 10000)" ?p pass1 pass1 ?p pass1
      "scan_at (T0 + 10000)" pass2 "scan_at (T0 + 31000)"]
  from G2 sc have d: "lastOpportunities pass2 = lastOpportunities pass1"
    unfolding pass2_def by blast
  note G3 = opportunity_gate[of ?fee "scan_at T0" ?p at_threshold pass1 ?p pass1
      "scan_at (T0 + 10000)" pass2 "scan_at (T0 + 31000)"]
  have "minProfitPercent (settings at_threshold) \<noteq> NaN" by (simp add: at_threshold_market)
  with G3 at_threshold_qualifies
  have th: "emitted ?fee (scan_at T0) ?p at_threshold \<noteq> []" by blast
  from th a b sc d show ?thesis by simp
qed
section \<open>Timers of a connector\<close>


lemma timers_ok_cong:
  "timers c' = timers c \<Longrightarrow> next_timer c' = next_timer c \<Longrightarrow>
   reconnectTimeout c' = reconnectTimeout c \<Longrightarrow> pingInterval c' = pingInterval c \<Longrightarrow>
   timers_ok c' = timers_ok c"
  by (simp add: timers_ok_def pending_def)

lemma emit_frame [simp]:
  "timers (emit ev c) = timers c" "next_timer (emit ev c) = next_timer c"
  "reconnectTimeout (emit ev c) = reconnectTimeout c" "pingInterval (emit ev c) = pingInterval c"
  "ws (emit ev c) = ws c" "sockets (emit ev c) = sockets c"
  "subscribedPairs (emit ev c) = subscribedPairs c" "isConnected (emit ev c) = isConnected c"
  "events (emit ev c) = events c @ [ev]"
  by (simp_all add: emit_def)

lemma emit_status_frame [simp]:
  "timers (emit_status ad now st m c) = timers c"
  "next_timer (emit_status ad now st m c) = next_timer c"
  "reconnectTimeout (emit_status ad now st m c) = reconnectTimeout c"
  "pingInterval (emit_status ad now st m c) = pingInterval c"
  "ws (emit_status ad now st m c) = ws c" "sockets (emit_status ad now st m c) = sockets c"
  "subscribedPairs (emit_status ad now st m c) = subscribedPairs c"
  "isConnected (emit_status ad now st m c) = isConnected c"
  by (simp_all add: emit_status_def)

lemma send_frame [simp]:
  "timers (send m c) = timers c" "next_timer (send m c) = next_timer c"
  "reconnectTimeout (send m c) = reconnectTimeout c" "pingInterval (send m c) = pingInterval c"
  "ws (send m c) = ws c" "sockets (send m c) = sockets c"
  "subscribedPairs (send m c) = subscribedPairs c" "isConnected (send m c) = isConnected c"
  by (simp_all add: send_def split: option.splits)

lemma send_all_frame [simp]:
  "timers (send_all ms c) = timers c" "next_timer (send_all ms c) = next_timer c"
  "reconnectTimeout (send_all ms c) = reconnectTimeout c"
  "pingInterval (send_all ms c) = pingInterval c"
  "ws (send_all ms c) = ws c" "sockets (send_all ms c) = sockets c"
  "subscribedPairs (send_all ms c) = subscribedPairs c"
  "isConnected (send_all ms c) = isConnected c"
  unfolding send_all_def by (induction ms arbitrary: c) simp_all

lemma timers_ok_emit_status [simp]: "timers_ok (emit_status ad now st m c) = timers_ok c"
  by (rule timers_ok_cong) simp_all

lemma timers_ok_send_all [simp]: "timers_ok (send_all ms c) = timers_ok c"
  by (rule timers_ok_cong) simp_all











lemma timers_ok_set_socket [simp]: "timers_ok (set_socket i s c) = timers_ok c"
  by (rule timers_ok_cong) (simp_all add: set_socket_def)

lemma timers_ok_isConnected [simp]: "timers_ok (c\<lparr>isConnected := b\<rparr>) = timers_ok c"
  by (rule timers_ok_cong) simp_all









lemma startPing_events [simp]: "events (startPing c) = events c"
  by (simp add: startPing_def set_timer_def)

lemma stopPing_frame [simp]:
  "events (stopPing c) = events c" "isConnected (stopPing c) = isConnected c"
  "reconnectTimeout (stopPing c) = reconnectTimeout c" "sockets (stopPing c) = sockets c"
  by (simp_all add: stopPing_def clear_timer_def split: option.splits)

lemma scheduleReconnect_frame [simp]:
  "events (scheduleReconnect c) = events c" "isConnected (scheduleReconnect c) = isConnected c"
  "sockets (scheduleReconnect c) = sockets c"
  "reconnectTimeout (scheduleReconnect c) \<noteq> None"
  by (simp_all add: scheduleReconnect_def set_timer_def split: option.splits)









lemma messageStr_gzip:
  assumes "gzip_magic z"
    and "gunzipSync codec z = Some s \<or> (gunzipSync codec z = None \<and> inflateSync codec z = Some s)"
  shows "messageStr codec (Binary z) = Some s"
  using assms by (auto simp: messageStr_def)

lemma messageStr_plain: "\<not> gzip_magic s \<Longrightarrow> messageStr codec (Binary s) = Some s"
  by (simp add: messageStr_def)

section \<open>Reconnecting\<close>




section \<open>Transport errors\<close>




section \<open>Disconnecting\<close>

text \<open>
  C7 fails on the code. Right after \<open>disconnect()\<close> on an open connection no timer is pending,
  \<open>ws\<close> is \<open>null\<close> and the socket is closing. But the socket's \<open>close\<close> event then runs the
  close handler, which schedules a reconnect; that timer fires after the teardown and
  \<open>connect()\<close> opens a new socket.
\<close>

theorem disconnect_then_close_reconnects:
  "timers (run bitget_adapter null_codec (open_trace @ [(2000, Disconnect)]) new_connector) = [] \<and>
   ws (run bitget_adapter null_codec (open_trace @ [(2000, Disconnect)]) new_connector) = None \<and>
   sockets (run bitget_adapter null_codec (open_trace @ [(2000, Disconnect)]) new_connector)
     = [CLOSING] \<and>
   timers (run bitget_adapter null_codec
             (open_trace @ [(2000, Disconnect), (2010, SocketClose 0)]) new_connector)
     = [(1, Reconnect)] \<and>
   sockets (run bitget_adapter null_codec
              (open_trace @ [(2000, Disconnect), (2010, SocketClose 0), (7010, TimerFires 1)])
              new_connector)
     = [CLOSED, CONNECTING] \<and>
   ws (run bitget_adapter null_codec
         (open_trace @ [(2000, Disconnect), (2010, SocketClose 0), (7010, TimerFires 1)])
         new_connector)
     = Some 1"
  by code_simp

section \<open>Compressed frames\<close>

text \<open>
  C8. A buffer that starts with the gzip magic bytes and that \<open>gunzipSync\<close> inflates to a
  text (or on which \<open>gunzipSync\<close> fails and \<open>inflateSync\<close> yields the text), and a buffer or
  string holding that text itself, which as a JSON text does not start with the magic
  bytes, are the same message to the handler: the connector after either frame is the
  same, the tickers it emitted included.
\<close>

theorem compressed_frame_same_as_plain:
  assumes "gzip_magic z"
    and "gunzipSync codec z = Some s \<or> (gunzipSync codec z = None \<and> inflateSync codec z = Some s)"
    and "\<not> gzip_magic s"
  shows "messageStr codec (Binary z) = Some s \<and>
         messageStr codec (Binary s) = Some s \<and>
         step ad codec (now, SocketMessage i (Binary z)) c =
         step ad codec (now, SocketMessage i (Binary s)) c \<and>
         step ad codec (now, SocketMessage i (Binary z)) c =
         step ad codec (now, SocketMessage i (Other s)) c"
  using messageStr_gzip[OF assms(1,2)] messageStr_plain[OF assms(3), of codec]
  by (simp add: on_message_def messageStr_def)

lemma compressed_example:
  "gzip_magic ticker_gzip" "gunzipSync example_codec ticker_gzip = Some ticker_text"
  "\<not> gzip_magic ticker_text"
  by code_simp+


lemma plain_example:
  "added connected_bitget
     (step bitget_adapter example_codec (2000, SocketMessage 0 (Binary ticker_text))
        connected_bitget) = [TickerEvent good_ticker]"
  by code_simp

text \<open>
  The theorem on a Bitget ticker frame and its gzip stream: both make the connector emit the
  same ticker.
\<close>

theorem compressed_frame_same_as_plain_witness:
  "gzip_magic ticker_gzip \<and> gunzipSync example_codec ticker_gzip = Some ticker_text \<and>
   \<not> gzip_magic ticker_text \<and>
   added connected_bitget
     (step bitget_adapter example_codec (2000, SocketMessage 0 (Binary ticker_gzip))
        connected_bitget) = [TickerEvent good_ticker] \<and>
   added connected_bitget
     (step bitget_adapter example_codec (2000, SocketMessage 0 (Binary ticker_text))
        connected_bitget) = [TickerEvent good_ticker]"
proof -
  have g: "gunzipSync example_codec ticker_gzip = Some ticker_text \<or>
      (gunzipSync example_codec ticker_gzip = None \<and>
       inflateSync example_codec ticker_gzip = Some ticker_text)"
    using compressed_example(2) by simp
  note T = compressed_frame_same_as_plain[OF compressed_example(1) g compressed_example(3),
      of bitget_adapter 2000 0 connected_bitget]
  then have "step bitget_adapter example_codec (2000, SocketMessage 0 (Binary ticker_gzip))
      connected_bitget =
    step bitget_adapter example_codec (2000, SocketMessage 0 (Binary ticker_text))
      connected_bitget" by (elim conjE)
  with plain_example compressed_example show ?thesis by (simp del: step.simps)
qed

section \<open>Frames with unusable prices\<close>











end
